theory Spec2Isabelle
  imports Main "HOL-Library.Word"
begin

section \<open>JavaScript strings\<close>

text \<open>
  A JavaScript string is a sequence of UTF-16 code units.  Every length, index,
  \<^verbatim>\<open>substring\<close>, \<^verbatim>\<open>trim\<close> and regular expression of
  \<^verbatim>\<open>llmService.ts\<close> works on code units, so a string is a list of 16-bit words.
  \<open>js\<close> embeds an ASCII literal of the source.
\<close>

type_synonym jschar = "16 word"
type_synonym jstring = "jschar list"

definition js :: "string \<Rightarrow> jstring" where
  "js s = map of_char s"

text \<open>
  The code units that \<^verbatim>\<open>String.prototype.trim\<close> removes and that the
  regular-expression class \<^verbatim>\<open>\s\<close> matches: ECMAScript's WhiteSpace (TAB, VT, FF,
  SP, NBSP, ZWNBSP and the category Zs) and LineTerminator (LF, CR, LS, PS).
\<close>

definition is_ws :: "jschar \<Rightarrow> bool" where
  "is_ws c \<longleftrightarrow>
     c = 0x09 \<or> c = 0x0A \<or> c = 0x0B \<or> c = 0x0C \<or> c = 0x0D \<or> c = 0x20 \<or>
     c = 0xA0 \<or> c = 0x1680 \<or> (0x2000 \<le> c \<and> c \<le> 0x200A) \<or>
     c = 0x2028 \<or> c = 0x2029 \<or> c = 0x202F \<or> c = 0x205F \<or> c = 0x3000 \<or>
     c = 0xFEFF"

text \<open>The code units that the regular-expression atom \<^verbatim>\<open>.\<close> (no \<^verbatim>\<open>s\<close> flag) refuses.\<close>

definition is_line_terminator :: "jschar \<Rightarrow> bool" where
  "is_line_terminator c \<longleftrightarrow> c = 0x0A \<or> c = 0x0D \<or> c = 0x2028 \<or> c = 0x2029"

definition trim :: "jstring \<Rightarrow> jstring" where
  "trim s = rev (dropWhile is_ws (rev (dropWhile is_ws s)))"

definition startsWith :: "jstring \<Rightarrow> jstring \<Rightarrow> bool" where
  "startsWith s p \<longleftrightarrow> take (length p) s = p"

section \<open>The code-fence pattern of \<^verbatim>\<open>parseAndValidateAIResponse\<close>\<close>

text \<open>
  Line 215 matches the trimmed text against
  \<^verbatim>\<open>/^```(?:json)?\s*([\s\S]*?)\s*```$/\<close>.
  A backtracking matcher tries the alternatives of every quantifier in priority order
  and keeps the first one under which the rest of the pattern matches; \<open>first_some\<close>
  is that search.  From the inside out:
  \<^item> \<open>fence_tail v\<close>: \<^verbatim>\<open>\s*```$\<close> matches exactly \<open>v\<close> (it has no capture,
    so the order of its alternatives does not matter);
  \<^item> \<open>fence_group u\<close>: the lazy group \<^verbatim>\<open>([\s\S]*?)\<close> takes 0, 1, 2, ... code
    units of \<open>u\<close>, the first length that lets the tail match wins; the result is
    the capture;
  \<^item> \<open>fence_space r\<close>: the greedy \<^verbatim>\<open>\s*\<close> takes all the leading white space of
    \<open>r\<close>, then one less, ... down to none;
  \<^item> \<open>fence_label r\<close>: the greedy optional \<^verbatim>\<open>(?:json)?\<close> first consumes
    \<^verbatim>\<open>json\<close> when it is there, then nothing;
  \<^item> \<open>fence_match t\<close>: the anchored \<^verbatim>\<open>^```\<close>.
  \<open>fence_match t = Some g\<close> says that the pattern matches and group 1 is \<open>g\<close>.
\<close>

fun first_some :: "('a \<Rightarrow> 'b option) \<Rightarrow> 'a list \<Rightarrow> 'b option" where
  "first_some f [] = None"
| "first_some f (x # xs) = (case f x of Some y \<Rightarrow> Some y | None \<Rightarrow> first_some f xs)"

definition backticks :: jstring where
  "backticks = [0x60, 0x60, 0x60]"

definition fence_tail :: "jstring \<Rightarrow> bool" where
  "fence_tail v \<longleftrightarrow> dropWhile is_ws v = backticks"

definition fence_group :: "jstring \<Rightarrow> jstring option" where
  "fence_group u =
     first_some (\<lambda>m. if fence_tail (drop m u) then Some (take m u) else None)
       [0 ..< Suc (length u)]"

definition fence_space :: "jstring \<Rightarrow> jstring option" where
  "fence_space r =
     first_some (\<lambda>k. fence_group (drop k r))
       (rev [0 ..< Suc (length (takeWhile is_ws r))])"

definition fence_label :: "jstring \<Rightarrow> jstring option" where
  "fence_label r =
     first_some fence_space
       ((if startsWith r (js ''json'') then [drop 4 r] else []) @ [r])"

definition fence_match :: "jstring \<Rightarrow> jstring option" where
  "fence_match t =
     (if startsWith t backticks then fence_label (drop 3 t) else None)"

text \<open>
  Lines 213 to 221: the value of the variable \<^verbatim>\<open>jsonStringToParse\<close> when it
  is handed to \<^verbatim>\<open>JSON.parse\<close> (the specification's \<^verbatim>\<open>extract\<close>).  The capture
  replaces the text only when the pattern matches and the capture is truthy, that
  is, not the empty string.  The \<^verbatim>\<open>else if\<close> branch only logs.
\<close>

definition jsonStringToParse :: "jstring \<Rightarrow> jstring" where
  "jsonStringToParse rawContentFromLLM =
     (let t = trim rawContentFromLLM in
      case fence_match t of
        Some g \<Rightarrow> if g \<noteq> [] then trim g else t
      | None \<Rightarrow> t)"

text \<open>
  \<open>is_fenced t\<close>: the pattern of line 215 matches \<open>t\<close> with a non-empty
  capture, which is the condition of line 216.
\<close>

definition is_fenced :: "jstring \<Rightarrow> bool" where
  "is_fenced t \<longleftrightarrow> (case fence_match t of Some g \<Rightarrow> g \<noteq> [] | None \<Rightarrow> False)"

section \<open>Markdown bold removal\<close>

text \<open>
  \<^verbatim>\<open>removeMarkdownBold\<close> (lines 287 to 290) is
  \<^verbatim>\<open>text.replace(/\*\*(.*?)\*\*/g, '$1').replace(/__(.*?)__/g, '$1')\<close>.
  For a delimiter \<open>d\<close> (an asterisk, then an underscore):
  \<^item> \<open>find_close d ys\<close> is the lazy group \<^verbatim>\<open>(.*?)\<close> followed by the closing pair,
    started right after an opening pair: the group grows one code unit at a time, it
    cannot take a line terminator, and it stops at the first closing pair; the result
    is the length of the group;
  \<^item> \<open>strip_pairs d\<close> is the global replace: at every position, from left to right, a
    match is replaced by its group and the search goes on after the match; where there
    is no match the code unit is kept and the search goes on one position later.
\<close>

fun find_close :: "jschar \<Rightarrow> jstring \<Rightarrow> nat option" where
  "find_close d (x # y # ys) =
     (if x = d \<and> y = d then Some 0
      else if is_line_terminator x then None
      else map_option Suc (find_close d (y # ys)))"
| "find_close d xs = None"

fun strip_pairs :: "jschar \<Rightarrow> jstring \<Rightarrow> jstring" where
  "strip_pairs d (x # y # ys) =
     (if x = d \<and> y = d then
        (case find_close d ys of
           Some n \<Rightarrow> take n ys @ strip_pairs d (drop (n + 2) ys)
         | None \<Rightarrow> x # strip_pairs d (y # ys))
      else x # strip_pairs d (y # ys))"
| "strip_pairs d xs = xs"

definition removeMarkdownBold :: "jstring \<Rightarrow> jstring" where
  "removeMarkdownBold text = strip_pairs 0x5F (strip_pairs 0x2A text)"

section \<open>JSON values and \<^verbatim>\<open>JSON.parse\<close>\<close>

text \<open>
  The values that \<^verbatim>\<open>JSON.parse\<close> builds.  A number keeps the literal it was read
  from: the validator never computes with a number, it only asks whether it is truthy
  and how it prints (see \<open>runtime\<close> below).  An object is the list of its own
  properties; \<open>map_of\<close> reads a property and \<open>obj_put\<close> is the assignment
  \<^verbatim>\<open>o[k] = v\<close>, which overwrites a property in place or appends a new one.
  The list is in the order of first insertion.  (JavaScript enumerates keys that are
  array indices before the others; no function of this theory enumerates an object.)
\<close>

datatype json =
    JNull
  | JBool bool
  | JNum jstring
  | JStr jstring
  | JArr "json list"
  | JObj "(jstring \<times> json) list"

fun obj_put :: "jstring \<Rightarrow> json \<Rightarrow> (jstring \<times> json) list \<Rightarrow> (jstring \<times> json) list" where
  "obj_put k v [] = [(k, v)]"
| "obj_put k v ((k', v') # ps) = (if k' = k then (k, v) # ps else (k', v') # obj_put k v ps)"

text \<open>
  \<^verbatim>\<open>JSON.parse\<close> follows the JSON grammar of ECMA-404 on code units: white space is
  TAB, LF, CR and SP only; a string may hold any code unit from U+0020 on except the
  quote and the backslash, and the escapes \<^verbatim>\<open>\" \\ \/ \b \f \n \r \t \uXXXX\<close>; a
  number is an optional minus sign, then a single zero or a nonzero digit followed by
  digits, then optionally a point with at least one digit, then optionally an exponent
  with an optional sign and at least one digit; there is no trailing comma; when a key occurs twice the later value wins.  \<open>None\<close> is the
  \<^verbatim>\<open>SyntaxError\<close>.  Each function returns what it read and the rest of the text.
\<close>

definition is_json_ws :: "jschar \<Rightarrow> bool" where
  "is_json_ws c \<longleftrightarrow> c = 0x09 \<or> c = 0x0A \<or> c = 0x0D \<or> c = 0x20"

definition is_digit :: "jschar \<Rightarrow> bool" where
  "is_digit c \<longleftrightarrow> 0x30 \<le> c \<and> c \<le> 0x39"

definition hex_val :: "jschar \<Rightarrow> jschar option" where
  "hex_val c =
     (if 0x30 \<le> c \<and> c \<le> 0x39 then Some (c - 0x30)
      else if 0x41 \<le> c \<and> c \<le> 0x46 then Some (c - 0x41 + 10)
      else if 0x61 \<le> c \<and> c \<le> 0x66 then Some (c - 0x61 + 10)
      else None)"

definition hex4 :: "jschar \<Rightarrow> jschar \<Rightarrow> jschar \<Rightarrow> jschar \<Rightarrow> jschar option" where
  "hex4 a b c d =
     (case (hex_val a, hex_val b, hex_val c, hex_val d) of
        (Some x, Some y, Some z, Some w) \<Rightarrow> Some (((x * 16 + y) * 16 + z) * 16 + w)
      | _ \<Rightarrow> None)"

definition simple_escape :: "jschar \<Rightarrow> jschar option" where
  "simple_escape e =
     (if e = 0x22 then Some 0x22
      else if e = 0x5C then Some 0x5C
      else if e = 0x2F then Some 0x2F
      else if e = 0x62 then Some 0x08
      else if e = 0x66 then Some 0x0C
      else if e = 0x6E then Some 0x0A
      else if e = 0x72 then Some 0x0D
      else if e = 0x74 then Some 0x09
      else None)"

text \<open>The characters of a string, read after its opening quote up to the closing one.\<close>

fun parse_string_chars :: "jstring \<Rightarrow> (jstring \<times> jstring) option" where
  "parse_string_chars [] = None"
| "parse_string_chars (c # cs) =
     (if c = 0x22 then Some ([], cs)
      else if c = 0x5C then
        (case cs of
           [] \<Rightarrow> None
         | e # r \<Rightarrow>
             if e = 0x75 then
               (case r of
                  h1 # h2 # h3 # h4 # r' \<Rightarrow>
                    (case hex4 h1 h2 h3 h4 of
                       None \<Rightarrow> None
                     | Some u \<Rightarrow>
                         map_option (\<lambda>(str, rest). (u # str, rest)) (parse_string_chars r'))
                | _ \<Rightarrow> None)
             else
               (case simple_escape e of
                  None \<Rightarrow> None
                | Some x \<Rightarrow>
                    map_option (\<lambda>(str, rest). (x # str, rest)) (parse_string_chars r)))
      else if c < 0x20 then None
      else map_option (\<lambda>(str, rest). (c # str, rest)) (parse_string_chars cs))"

definition lex_digits :: "jstring \<Rightarrow> (jstring \<times> jstring) option" where
  "lex_digits s =
     (let ds = takeWhile is_digit s in
      if ds = [] then None else Some (ds, dropWhile is_digit s))"

definition lex_int :: "jstring \<Rightarrow> (jstring \<times> jstring) option" where
  "lex_int s =
     (case s of
        [] \<Rightarrow> None
      | c # cs \<Rightarrow>
          if c = 0x30 then Some ([c], cs)
          else if is_digit c then Some (c # takeWhile is_digit cs, dropWhile is_digit cs)
          else None)"

definition lex_frac :: "jstring \<Rightarrow> (jstring \<times> jstring) option" where
  "lex_frac s =
     (case s of
        [] \<Rightarrow> Some ([], s)
      | c # cs \<Rightarrow>
          if c = 0x2E then map_option (\<lambda>(ds, rest). (c # ds, rest)) (lex_digits cs)
          else Some ([], s))"

definition lex_exp :: "jstring \<Rightarrow> (jstring \<times> jstring) option" where
  "lex_exp s =
     (case s of
        [] \<Rightarrow> Some ([], s)
      | c # cs \<Rightarrow>
          if c = 0x65 \<or> c = 0x45 then
            (case cs of
               [] \<Rightarrow> None
             | g # cs' \<Rightarrow>
                 if g = 0x2B \<or> g = 0x2D
                 then map_option (\<lambda>(ds, rest). (c # g # ds, rest)) (lex_digits cs')
                 else map_option (\<lambda>(ds, rest). (c # ds, rest)) (lex_digits cs))
          else Some ([], s))"

definition lex_number :: "jstring \<Rightarrow> (jstring \<times> jstring) option" where
  "lex_number s =
     (let (sgn, s1) =
        (case s of [] \<Rightarrow> ([], s) | c # cs \<Rightarrow> if c = 0x2D then ([c], cs) else ([], s)) in
      case lex_int s1 of
        None \<Rightarrow> None
      | Some (i, s2) \<Rightarrow>
          (case lex_frac s2 of
             None \<Rightarrow> None
           | Some (f, s3) \<Rightarrow>
               (case lex_exp s3 of
                  None \<Rightarrow> None
                | Some (e, s4) \<Rightarrow> Some (sgn @ i @ f @ e, s4))))"

definition mk_object :: "(jstring \<times> json) list \<Rightarrow> json" where
  "mk_object ms = JObj (foldl (\<lambda>ps (k, v). obj_put k v ps) [] ms)"

lemma dropWhile_Cons_shorter:
  "dropWhile P s = c # cs \<Longrightarrow> length cs < length s"
proof -
  assume "dropWhile P s = c # cs"
  then have "Suc (length cs) = length (dropWhile P s)" by simp
  also have "\<dots> \<le> length s" by (rule length_dropWhile_le)
  finally show ?thesis by simp
qed

text \<open>
  \<open>parse_value\<close> reads one value, \<open>parse_elements\<close> the elements of an array after
  its bracket or a comma, \<open>parse_members\<close> the members of an object after its brace
  or a comma.  The tests \<open>length r < length s\<close> make the recursion visibly
  well-founded; they always hold (\<open>parse_value_shorter\<close>,
  \<open>parse_elements_unguarded\<close> and \<open>parse_members_unguarded\<close> below).
\<close>

function parse_value :: "jstring \<Rightarrow> (json \<times> jstring) option"
  and parse_elements :: "jstring \<Rightarrow> (json list \<times> jstring) option"
  and parse_members :: "jstring \<Rightarrow> ((jstring \<times> json) list \<times> jstring) option"
where
  "parse_value s =
     (case dropWhile is_json_ws s of
        [] \<Rightarrow> None
      | c # cs \<Rightarrow>
          if c = 0x7B then
            (case dropWhile is_json_ws cs of
               [] \<Rightarrow> None
             | d # r \<Rightarrow>
                 if d = 0x7D then Some (JObj [], r)
                 else map_option (\<lambda>(ms, rest). (mk_object ms, rest)) (parse_members cs))
          else if c = 0x5B then
            (case dropWhile is_json_ws cs of
               [] \<Rightarrow> None
             | d # r \<Rightarrow>
                 if d = 0x5D then Some (JArr [], r)
                 else map_option (\<lambda>(vs, rest). (JArr vs, rest)) (parse_elements cs))
          else if c = 0x22 then
            map_option (\<lambda>(str, rest). (JStr str, rest)) (parse_string_chars cs)
          else if startsWith (c # cs) (js ''true'') then Some (JBool True, drop 4 (c # cs))
          else if startsWith (c # cs) (js ''false'') then Some (JBool False, drop 5 (c # cs))
          else if startsWith (c # cs) (js ''null'') then Some (JNull, drop 4 (c # cs))
          else map_option (\<lambda>(lexeme, rest). (JNum lexeme, rest)) (lex_number (c # cs)))"
| "parse_elements s =
     (case parse_value s of
        None \<Rightarrow> None
      | Some (v, r) \<Rightarrow>
          (case dropWhile is_json_ws r of
             [] \<Rightarrow> None
           | c # r' \<Rightarrow>
               if c = 0x2C then
                 (if length r' < length s
                  then map_option (\<lambda>(vs, rest). (v # vs, rest)) (parse_elements r')
                  else None)
               else if c = 0x5D then Some ([v], r')
               else None))"
| "parse_members s =
     (case dropWhile is_json_ws s of
        [] \<Rightarrow> None
      | q # cs \<Rightarrow>
          if q = 0x22 then
            (case parse_string_chars cs of
               None \<Rightarrow> None
             | Some (k, r) \<Rightarrow>
                 (case dropWhile is_json_ws r of
                    [] \<Rightarrow> None
                  | col # r1 \<Rightarrow>
                      if col = 0x3A \<and> length r1 < length s then
                        (case parse_value r1 of
                           None \<Rightarrow> None
                         | Some (v, r2) \<Rightarrow>
                             (case dropWhile is_json_ws r2 of
                                [] \<Rightarrow> None
                              | c # r3 \<Rightarrow>
                                  if c = 0x2C then
                                    (if length r3 < length s
                                     then map_option (\<lambda>(ms, rest). ((k, v) # ms, rest))
                                            (parse_members r3)
                                     else None)
                                  else if c = 0x7D then Some ([(k, v)], r3)
                                  else None))
                      else None))
          else None)"
  by pat_completeness auto

termination
  by (relation "measure (\<lambda>x. case x of
          Inl s \<Rightarrow> 2 * length s
        | Inr (Inl s) \<Rightarrow> 2 * length s + 1
        | Inr (Inr s) \<Rightarrow> 2 * length s + 1)")
     (auto dest: dropWhile_Cons_shorter)

declare parse_value.simps [simp del] parse_elements.simps [simp del] parse_members.simps [simp del]

definition JSON_parse :: "jstring \<Rightarrow> json option" where
  "JSON_parse text =
     (case parse_value text of
        None \<Rightarrow> None
      | Some (v, rest) \<Rightarrow> if dropWhile is_json_ws rest = [] then Some v else None)"

section \<open>The validator \<^verbatim>\<open>parseAndValidateAIResponse\<close>\<close>

text \<open>
  What the code asks of the JavaScript engine, as parameters of the model.
  \<^item> Of a number, which is a double in JavaScript: whether it is zero (the only falsy
    numbers that \<^verbatim>\<open>JSON.parse\<close> can return) and how
    \<^verbatim>\<open>Number.prototype.toString\<close> prints it.  Both are functions of the literal.
  \<^item> Of the three recursive library operations that the code applies to a parsed value,
    whether the operation exhausts the call stack on that value, as it does on a value
    that is nested deeply enough, and throws a \<^verbatim>\<open>RangeError\<close>:
    \<^verbatim>\<open>JSON.stringify(v)\<close> (line 50 of the request handler),
    \<^verbatim>\<open>JSON.stringify(v, null, 2)\<close> (the logging calls of lines 234, 249, 257, 275
    and 281 of the validator) and \<^verbatim>\<open>Array.prototype.join\<close> (the conversion of an
    array to a string at lines 281 and 282).
\<close>

datatype operation = Stringify | StringifyIndented | Join

record runtime =
  number_is_zero :: "jstring \<Rightarrow> bool"
  number_to_string :: "jstring \<Rightarrow> jstring"
  overflows :: "operation \<Rightarrow> json \<Rightarrow> bool"

text \<open>
  A thrown value: an \<^verbatim>\<open>Error\<close>, a \<^verbatim>\<open>TypeError\<close> or a \<^verbatim>\<open>RangeError\<close>, with
  its message.
\<close>

datatype exn = Error jstring | TypeError jstring | RangeError jstring

fun message_of :: "exn \<Rightarrow> jstring" where
  "message_of (Error m) = m"
| "message_of (TypeError m) = m"
| "message_of (RangeError m) = m"

definition stack_overflow :: exn where
  "stack_overflow = RangeError (js ''Maximum call stack size exceeded'')"

text \<open>
  \<open>truthy\<close> is \<^verbatim>\<open>ToBoolean\<close>.  \<open>is_object v\<close> is
  \<^verbatim>\<open>typeof v === 'object' && v !== null\<close>: it holds of objects and of arrays.
  \<open>get_prop v k\<close> is \<^verbatim>\<open>v.k\<close> on such a value, for a name \<open>k\<close> that is no array
  index, not \<^verbatim>\<open>length\<close> and not a property of the prototypes (the validator reads
  \<^verbatim>\<open>point\<close> and \<^verbatim>\<open>detail\<close> this way); \<open>None\<close> is \<^verbatim>\<open>undefined\<close>.
\<close>

fun truthy :: "runtime \<Rightarrow> json \<Rightarrow> bool" where
  "truthy rt JNull = False"
| "truthy rt (JBool b) = b"
| "truthy rt (JNum n) = (\<not> number_is_zero rt n)"
| "truthy rt (JStr s) = (s \<noteq> [])"
| "truthy rt (JArr xs) = True"
| "truthy rt (JObj ps) = True"

fun is_object :: "json \<Rightarrow> bool" where
  "is_object (JArr xs) = True"
| "is_object (JObj ps) = True"
| "is_object v = False"

fun get_prop :: "json \<Rightarrow> jstring \<Rightarrow> json option" where
  "get_prop (JObj ps) k = map_of ps k"
| "get_prop v k = None"

text \<open>
  \<open>ToString\<close> is the conversion that a template literal applies to
  \<^verbatim>\<open>${parsedData.type}\<close> (lines 281 and 282); \<open>Inl\<close> is the error it can
  throw.  An array prints through \<^verbatim>\<open>Array.prototype.join\<close>, where
  \<^verbatim>\<open>null\<close> prints as the empty string, unless the recursion exhausts the stack.
  An object is converted by
  \<^verbatim>\<open>OrdinaryToPrimitive\<close>, which calls the object's \<^verbatim>\<open>toString\<close>, then its
  \<^verbatim>\<open>valueOf\<close>.  An object made by \<^verbatim>\<open>JSON.parse\<close> inherits
  \<^verbatim>\<open>Object.prototype.toString\<close>, which returns \<^verbatim>\<open>[object Object]\<close>, unless it has
  an own property of that name; an own property holds a JSON value, which cannot be
  called, and then \<^verbatim>\<open>valueOf\<close> (its own, not callable, or the inherited one, which
  returns the object itself) gives no primitive value either: a \<^verbatim>\<open>TypeError\<close>.
\<close>

fun ToString :: "runtime \<Rightarrow> json \<Rightarrow> exn + jstring"
  and join :: "runtime \<Rightarrow> json list \<Rightarrow> exn + jstring"
where
  "ToString rt JNull = Inr (js ''null'')"
| "ToString rt (JBool b) = Inr (if b then js ''true'' else js ''false'')"
| "ToString rt (JNum n) = Inr (number_to_string rt n)"
| "ToString rt (JStr s) = Inr s"
| "ToString rt (JArr xs) =
     (if overflows rt Join (JArr xs) then Inl stack_overflow else join rt xs)"
| "ToString rt (JObj ps) =
     (if map_of ps (js ''toString'') \<noteq> None
      then Inl (TypeError (js ''Cannot convert object to primitive value''))
      else Inr (js ''[object Object]''))"
| "join rt [] = Inr []"
| "join rt (x # xs) =
     (case (if x = JNull then Inr [] else ToString rt x) of
        Inl e \<Rightarrow> Inl e
      | Inr a \<Rightarrow>
          if xs = [] then Inr a
          else (case join rt xs of Inl e \<Rightarrow> Inl e | Inr b \<Rightarrow> Inr (a @ js '','' @ b)))"

text \<open>The object literal \<^verbatim>\<open>{ type: "error", message: msg }\<close> and the six messages.\<close>

definition error_response :: "jstring \<Rightarrow> json" where
  "error_response msg = JObj [(js ''type'', JStr (js ''error'')), (js ''message'', JStr msg)]"

definition PV01 :: "jstring \<Rightarrow> jstring" where
  "PV01 source =
     js ''AI service response from '' @ source @ js '' was not valid JSON. (E:PV01_'' @ source
       @ js '')''"

definition PV02 :: "jstring \<Rightarrow> jstring" where
  "PV02 source =
     js ''AI response from '' @ source @ js '' invalid structure. (E:PV02_'' @ source @ js '')''"

definition PV03 :: "jstring \<Rightarrow> jstring" where
  "PV03 source =
     js ''AI 'text' response from '' @ source @ js '' missing 'answer'. (E:PV03_'' @ source
       @ js '')''"

definition PV04 :: "jstring \<Rightarrow> jstring" where
  "PV04 source =
     js ''AI 'list' response from '' @ source @ js '' invalid. (E:PV04_'' @ source @ js '')''"

definition PV05 :: "jstring \<Rightarrow> jstring" where
  "PV05 source =
     js ''AI 'error' response from '' @ source @ js '' missing 'message'. (E:PV05_'' @ source
       @ js '')''"

definition PV06 :: "jstring \<Rightarrow> jstring \<Rightarrow> jstring" where
  "PV06 source shown =
     js ''AI from '' @ source @ js '' returned unknown type: '' @ [0x27] @ shown @ [0x27]
       @ js ''. (E:PV06_'' @ source @ js '')''"

text \<open>
  Lines 238 to 243.  The first test is
  \<^verbatim>\<open>parsedData.follow_up && typeof parsedData.follow_up === 'string'\<close>: a non-empty
  string.  Everything else that is neither \<^verbatim>\<open>null\<close> nor \<^verbatim>\<open>undefined\<close>, the
  empty string included, is overwritten with \<^verbatim>\<open>null\<close>.
\<close>

definition normalize_follow_up :: "(jstring \<times> json) list \<Rightarrow> (jstring \<times> json) list" where
  "normalize_follow_up ps =
     (case map_of ps (js ''follow_up'') of
        None \<Rightarrow> ps
      | Some JNull \<Rightarrow> ps
      | Some (JStr s) \<Rightarrow>
          if s \<noteq> [] then obj_put (js ''follow_up'') (JStr (removeMarkdownBold s)) ps
          else obj_put (js ''follow_up'') JNull ps
      | Some v \<Rightarrow> obj_put (js ''follow_up'') JNull ps)"

text \<open>Lines 261 to 270: the function mapped over \<^verbatim>\<open>items\<close>.\<close>

definition string_or :: "json option \<Rightarrow> jstring \<Rightarrow> jstring" where
  "string_or v dflt = (case v of Some (JStr s) \<Rightarrow> s | _ \<Rightarrow> dflt)"

definition normalize_item :: "json \<Rightarrow> json" where
  "normalize_item item =
     (if \<not> is_object item then
        JObj [(js ''point'', JStr (js ''N/A'')),
              (js ''detail'', JStr (js ''Invalid item structure''))]
      else
        JObj [(js ''point'',
                 JStr (removeMarkdownBold (string_or (get_prop item (js ''point'')) (js ''N/A'')))),
              (js ''detail'',
                 JStr (removeMarkdownBold (string_or (get_prop item (js ''detail'')) (js ''N/A''))))])"

text \<open>
  The logging calls of lines 234, 249, 257, 275 and 281 evaluate
  \<^verbatim>\<open>JSON.stringify(parsedData, null, 2)\<close> before the error response is returned,
  outside any \<^verbatim>\<open>try\<close>: when the serialisation exhausts the stack, the
  \<^verbatim>\<open>RangeError\<close> leaves the validator in place of the response.
\<close>

definition warn_with_data :: "runtime \<Rightarrow> json \<Rightarrow> json \<Rightarrow> exn + json" where
  "warn_with_data rt parsedData response =
     (if overflows rt StringifyIndented parsedData then Inl stack_overflow else Inr response)"

text \<open>
  Lines 233 to 283, on the parsed value.  The guard of line 233,
  \<^verbatim>\<open>typeof parsedData !== 'object' || parsedData === null || !parsedData.type\<close>, sends
  to \<^verbatim>\<open>PV02\<close> every primitive value, \<^verbatim>\<open>null\<close>, every array (an array has no
  property \<^verbatim>\<open>type\<close>) and every object whose \<^verbatim>\<open>type\<close> is missing or falsy.  The
  \<^verbatim>\<open>switch\<close> compares with \<^verbatim>\<open>===\<close>.  The successful branches return
  \<^verbatim>\<open>parsedData\<close> itself, updated in place, and serialise nothing.  Every branch
  that answers with an error response first logs the parsed value, in the state that
  the assignment to \<^verbatim>\<open>follow_up\<close> has left it in.  The default branch builds its
  message with \<open>ToString\<close>, at line 281 before the value is serialised.  \<open>Inl\<close>
  is the exception that leaves the function.
\<close>

definition validate :: "runtime \<Rightarrow> jstring \<Rightarrow> json \<Rightarrow> exn + json" where
  "validate rt source parsedData =
     (case parsedData of
        JObj ps0 \<Rightarrow>
          (case map_of ps0 (js ''type'') of
             None \<Rightarrow> warn_with_data rt parsedData (error_response (PV02 source))
           | Some ty \<Rightarrow>
               if \<not> truthy rt ty
               then warn_with_data rt parsedData (error_response (PV02 source))
               else
                 (let ps = normalize_follow_up ps0 in
                  if ty = JStr (js ''text'') then
                    (case map_of ps (js ''answer'') of
                       Some (JStr answer) \<Rightarrow>
                         Inr (JObj (obj_put (js ''answer'') (JStr (removeMarkdownBold answer)) ps))
                     | _ \<Rightarrow> warn_with_data rt (JObj ps) (error_response (PV03 source)))
                  else if ty = JStr (js ''list'') then
                    (case (map_of ps (js ''title''), map_of ps (js ''items'')) of
                       (Some (JStr title), Some (JArr items)) \<Rightarrow>
                         Inr (JObj (obj_put (js ''items'') (JArr (map normalize_item items))
                                (obj_put (js ''title'') (JStr (removeMarkdownBold title)) ps)))
                     | _ \<Rightarrow> warn_with_data rt (JObj ps) (error_response (PV04 source)))
                  else if ty = JStr (js ''error'') then
                    (case map_of ps (js ''message'') of
                       Some (JStr message) \<Rightarrow> Inr (JObj ps)
                     | _ \<Rightarrow> warn_with_data rt (JObj ps) (error_response (PV05 source)))
                  else
                    (case ToString rt ty of
                       Inl e \<Rightarrow> Inl e
                     | Inr shown \<Rightarrow>
                         warn_with_data rt (JObj ps) (error_response (PV06 source shown)))))
      | _ \<Rightarrow> warn_with_data rt parsedData (error_response (PV02 source)))"

definition parseAndValidateAIResponse :: "runtime \<Rightarrow> jstring \<Rightarrow> jstring \<Rightarrow> exn + json" where
  "parseAndValidateAIResponse rt rawContentFromLLM source =
     (case JSON_parse (jsonStringToParse rawContentFromLLM) of
        None \<Rightarrow> Inr (error_response (PV01 source))
      | Some parsedData \<Rightarrow> validate rt source parsedData)"

text \<open>
  A runtime for closed examples.  It agrees with JavaScript on the literal
  \<^verbatim>\<open>0\<close> and on the unsigned integer literals of at most fifteen digits, which are
  the only numbers in the examples of this theory, and on the values that are nested
  no deeper than the stack of the engine allows, as the values of the examples are,
  none of which has more than three levels.
\<close>

definition plain_numbers :: runtime where
  "plain_numbers =
     \<lparr> number_is_zero = (\<lambda>n. n = js ''0''), number_to_string = (\<lambda>n. n),
       overflows = (\<lambda>operation v. False) \<rparr>"

section \<open>Configuration and prompts\<close>

text \<open>
  The module constants of lines 8, 9 and 19 and the environment variable read at lines
  105, 119 and 175.  An unset environment variable is \<open>None\<close>.  A key is configured
  when it is truthy, that is, not the empty string.
\<close>

record config =
  OPENROUTER_API_KEY :: jstring
  GOOGLE_AI_API_KEY :: jstring
  KNOWLEDGE_BASE_CONTENT :: jstring
  KNOWLEDGE_BASE_CONTENT_OVERRIDE :: "jstring option"

definition effectiveKnowledgeBase :: "config \<Rightarrow> jstring" where
  "effectiveKnowledgeBase cfg =
     (case KNOWLEDGE_BASE_CONTENT_OVERRIDE cfg of
        None \<Rightarrow> KNOWLEDGE_BASE_CONTENT cfg
      | Some s \<Rightarrow> if s \<noteq> [] then s else KNOWLEDGE_BASE_CONTENT cfg)"

definition DEFAULT_OPENROUTER_MODEL :: jstring where
  "DEFAULT_OPENROUTER_MODEL = js ''google/gemma-3-27b-it:free''"

text \<open>Lines 36 to 71, code unit for code unit.\<close>

definition sharedSystemPromptForJSON :: jstring where
  "sharedSystemPromptForJSON =
     js ''\<newline>'' @
     js ''You are a specialized AI assistant for startup fundraising queries.\<newline>'' @
     js ''Your answers MUST be based *EXCLUSIVELY* on the DOCUMENT provided in the user's message.\<newline>'' @
     js ''Do not invent information or use external knowledge.\<newline>'' @
     js ''Your entire response MUST be a single, valid JSON object.\<newline>'' @
     js ''Do NOT include ANY conversational preamble, introductory sentences, or any text whatsoever outside the JSON structure itself.\<newline>'' @
     js ''Your response MUST start with '{' and end with '}'.\<newline>'' @
     js ''If the DOCUMENT does not contain information to answer the question, or if you cannot confidently answer based SOLELY on the DOCUMENT,\<newline>'' @
     js ''your *entire* output MUST be exactly this JSON object:\<newline>'' @
     js ''{\"type\": \"text\", \"answer\": \"I'm sorry, but I cannot find specific information on that topic within the provided fundraising guide.\", \"follow_up\": null}\<newline>'' @
     js ''\<newline>'' @
     js ''Available JSON response structures:\<newline>'' @
     js ''\<newline>'' @
     js ''1.  For textual answers:\<newline>'' @
     js ''    {\<newline>'' @
     js ''      \"type\": \"text\",\<newline>'' @
     js ''      \"answer\": \"A detailed, concise answer derived from the DOCUMENT.\",\<newline>'' @
     js ''      \"follow_up\": \"An optional, relevant follow-up question based on the answer, or null.\"\<newline>'' @
     js ''    }\<newline>'' @
     js ''\<newline>'' @
     js ''2.  For answers best presented as a list (e.g., steps, tips, components):\<newline>'' @
     js ''    {\<newline>'' @
     js ''      \"type\": \"list\",\<newline>'' @
     js ''      \"title\": \"A brief, descriptive title for the list.\",\<newline>'' @
     js ''      \"items\": [\<newline>'' @
     js ''        { \"point\": \"Short heading for the first item.\", \"detail\": \"Detailed explanation for the first item, from the DOCUMENT.\" },\<newline>'' @
     js ''        { \"point\": \"Short heading for the second item.\", \"detail\": \"Detailed explanation for the second item, from the DOCUMENT.\" }\<newline>'' @
     js ''      ],\<newline>'' @
     js ''      \"follow_up\": \"An optional, relevant follow-up question, or null.\"\<newline>'' @
     js ''    }\<newline>'' @
     js ''    Each item in the \"items\" array MUST be an object with \"point\" and \"detail\" string keys.\<newline>'' @
     js ''\<newline>'' @
     js ''IMPORTANT FORMATTING RULES FOR JSON STRING VALUES:\<newline>'' @
     js ''- Ensure all string values are properly escaped (e.g., newlines as '' @
     [0x5C] @
     js ''n, quotes as '' @
     [0x5C] @
     js ''\").\<newline>'' @
     js ''- DO NOT use Markdown (like **bold** or *italics*).\<newline>''"

text \<open>Line 120 and lines 176 to 187; \<^verbatim>\<open>substring(0, 25000)\<close> is \<open>take 25000\<close>.\<close>

definition userPromptContent :: "config \<Rightarrow> jstring \<Rightarrow> jstring" where
  "userPromptContent cfg question =
     js ''DOCUMENT:\<newline>---\<newline>'' @ take 25000 (effectiveKnowledgeBase cfg)
       @ js ''\<newline>---\<newline>USER QUESTION: '' @ question"

definition fullPromptForGoogleAI :: "config \<Rightarrow> jstring \<Rightarrow> jstring" where
  "fullPromptForGoogleAI cfg question =
     (js ''\<newline>'' @ js ''        '')
       @ sharedSystemPromptForJSON @
     (js '' \<newline>'' @ js ''\<newline>'' @ js ''        DOCUMENT:\<newline>'' @ js ''        ---\<newline>'' @ js ''        '')
       @ take 25000 (effectiveKnowledgeBase cfg) @
     (js '' \<newline>'' @ js ''        ---\<newline>'' @ js ''\<newline>'' @ js ''        USER QUESTION: '')
       @ question @
     (js ''\<newline>'' @ js ''\<newline>'' @ js ''        JSON RESPONSE (ONLY the JSON object, no other text or markdown):\<newline>'' @ js ''    '')"

section \<open>The provider adapters and the orchestrator\<close>

text \<open>
  The network is a parameter.  \<open>openrouter_post model prompt\<close> is the outcome of
  \<^verbatim>\<open>axios.post\<close> followed by the projection
  \<^verbatim>\<open>data?.choices?.[0]?.message?.content\<close>: the error that the request throws, as
  it leaves the \<^verbatim>\<open>catch\<close> of line 148, or the projected value, where \<open>None\<close> is
  \<^verbatim>\<open>undefined\<close>.  \<open>google_generateContent prompt\<close> is the
  outcome of \<^verbatim>\<open>model.generateContent\<close> followed by \<^verbatim>\<open>response.text()\<close>.
  \<open>save_fails\<close> says for which history entries the database write throws.
\<close>

record world =
  openrouter_post :: "jstring \<Rightarrow> jstring \<Rightarrow> exn + json option"
  google_generateContent :: "jstring \<Rightarrow> exn + jstring"
  save_fails :: "jstring \<times> jstring \<times> json \<Rightarrow> bool"

text \<open>
  The trace is ghost state: it records every entry into an adapter and every request
  that an adapter sends, in order.
\<close>

datatype provider = OpenRouter | GoogleAI

datatype event = Invoked provider | Requested provider jstring

definition or_default :: "jstring \<Rightarrow> jstring \<Rightarrow> jstring" where
  "or_default m dflt = (if m \<noteq> [] then m else dflt)"

text \<open>Lines 100 to 111.\<close>

definition commonPreChecks :: "config \<Rightarrow> json option" where
  "commonPreChecks cfg =
     (if OPENROUTER_API_KEY cfg = [] \<and> GOOGLE_AI_API_KEY cfg = [] then
        Some (error_response
          (js ''Critical Error: AI service API key(s) missing. Contact support. (E:CFG00)''))
      else if effectiveKnowledgeBase cfg = [] then
        Some (error_response
          (js ''Critical Error: Knowledge base unavailable. Contact support. (E:CFG02)''))
      else None)"

text \<open>
  Lines 116 to 155.  The \<^verbatim>\<open>catch\<close> of line 148 logs and rethrows the same error,
  also the one that the validator may throw at line 147.
\<close>

definition attemptOpenRouter ::
  "runtime \<Rightarrow> config \<Rightarrow> world \<Rightarrow> jstring \<Rightarrow> jstring \<Rightarrow> event list \<Rightarrow> (exn + json) \<times> event list"
where
  "attemptOpenRouter rt cfg w question modelToUse tr =
     (let tr1 = tr @ [Invoked OpenRouter] in
      if OPENROUTER_API_KEY cfg = [] then
        (Inl (Error (js ''OpenRouter API key not configured for attemptOpenRouter. (E:OR_CFG)'')),
         tr1)
      else
        (let prompt = userPromptContent cfg question;
             tr2 = tr1 @ [Requested OpenRouter prompt] in
         case openrouter_post w modelToUse prompt of
           Inl error \<Rightarrow> (Inl error, tr2)
         | Inr (Some (JStr rawContent)) \<Rightarrow>
             if trim rawContent = [] then
               (Inl (Error
                  (js ''OpenRouter AI service returned empty or invalid content. (E:OR_LR01)'')),
                tr2)
             else (parseAndValidateAIResponse rt rawContent (js ''OpenRouter''), tr2)
         | Inr _ \<Rightarrow>
             (Inl (Error
                (js ''OpenRouter AI service returned empty or invalid content. (E:OR_LR01)'')),
              tr2)))"

text \<open>
  Lines 158 to 206.  The key test of line 159 is outside the \<^verbatim>\<open>try\<close>; every error
  thrown inside it, also by the validator at line 201, is replaced at line 204 by a
  new \<^verbatim>\<open>Error\<close>.
\<close>

definition GA_AX :: "jstring \<Rightarrow> jstring" where
  "GA_AX m =
     js ''Google AI service failed: '' @ or_default m (js ''Unknown Google AI Error'')
       @ js '' (E:GA_AX)''"

definition getAnswerFromGoogleAI ::
  "runtime \<Rightarrow> config \<Rightarrow> world \<Rightarrow> jstring \<Rightarrow> event list \<Rightarrow> (exn + json) \<times> event list"
where
  "getAnswerFromGoogleAI rt cfg w question tr =
     (let tr1 = tr @ [Invoked GoogleAI] in
      if GOOGLE_AI_API_KEY cfg = [] then
        (Inl (Error (js ''Google AI API key not configured. (E:GA_CFG)'')), tr1)
      else
        (let prompt = fullPromptForGoogleAI cfg question;
             tr2 = tr1 @ [Requested GoogleAI prompt] in
         case google_generateContent w prompt of
           Inl error \<Rightarrow> (Inl (Error (GA_AX (message_of error))), tr2)
         | Inr rawContent \<Rightarrow>
             if trim rawContent = [] then
               (Inl (Error (GA_AX (js ''Google AI service returned empty content. (E:GA_LR01)''))),
                tr2)
             else
               (case parseAndValidateAIResponse rt rawContent (js ''GoogleAI'') of
                  Inl error \<Rightarrow> (Inl (Error (GA_AX (message_of error))), tr2)
                | Inr response \<Rightarrow> (Inr response, tr2))))"

text \<open>Lines 75 to 98.  The result is the answer and the trace of the run.\<close>

definition getAnswerFromLLM ::
  "runtime \<Rightarrow> config \<Rightarrow> world \<Rightarrow> jstring \<Rightarrow> json \<times> event list"
where
  "getAnswerFromLLM rt cfg w question =
     (case commonPreChecks cfg of
        Some commonChecksResult \<Rightarrow> (commonChecksResult, [])
      | None \<Rightarrow>
          (case attemptOpenRouter rt cfg w question DEFAULT_OPENROUTER_MODEL [] of
             (Inr response, tr) \<Rightarrow> (response, tr)
           | (Inl openRouterError, tr) \<Rightarrow>
               if GOOGLE_AI_API_KEY cfg \<noteq> [] then
                 (case getAnswerFromGoogleAI rt cfg w question tr of
                    (Inr response, tr') \<Rightarrow> (response, tr')
                  | (Inl googleAIError, tr') \<Rightarrow>
                      (error_response
                         (js ''All AI services failed. Google AI Error: ''
                            @ or_default (message_of googleAIError) (js ''Unknown Google AI Error'')
                            @ js '' (E:F01)''),
                       tr'))
               else
                 (error_response
                    (js ''Primary AI service failed and no fallback configured. OpenRouter Error: ''
                       @ or_default (message_of openRouterError) (js ''Unknown OpenRouter Error'')
                       @ js '' (E:F02)''),
                  tr)))"

definition invocations :: "event list \<Rightarrow> provider list" where
  "invocations tr = concat (map (\<lambda>e. case e of Invoked p \<Rightarrow> [p] | Requested p x \<Rightarrow> []) tr)"

section \<open>The request handler \<^verbatim>\<open>POST /api/ask\<close>\<close>

text \<open>
  A request carries \<^verbatim>\<open>req.body.question\<close> (any JSON value, or nothing) and
  \<^verbatim>\<open>req.auth?.userId\<close>.  The history store is the list of the entries written so
  far; an entry is the triple of \<^verbatim>\<open>userId\<close>, \<^verbatim>\<open>question\<close> and
  \<^verbatim>\<open>llmResponse\<close> given to \<^verbatim>\<open>new QAHistoryModel\<close> at line 54.  The handler
  answers with a status and a body.  \<^verbatim>\<open>ensureDbConnection\<close> catches every error of
  the connection and writes nothing, and the orchestrator returns a value on every
  path.  The logging call of line 50 serialises that value with
  \<^verbatim>\<open>JSON.stringify(llmResponse)\<close>; when this exhausts the stack, the
  \<^verbatim>\<open>RangeError\<close> reaches the outer \<^verbatim>\<open>catch\<close> of line 70, which hands it to
  \<^verbatim>\<open>globalErrorHandler\<close> (lines 105 to 126), before anything is written.  Such an
  error has no status of its own and is no authentication error, so the handler
  answers 500 with the message of the error.
\<close>

record request =
  body_question :: "json option"
  auth_userId :: "jstring option"

record reply =
  status :: nat
  body :: json
  history :: "(jstring \<times> jstring \<times> json) list"
  trace :: "event list"

definition globalErrorHandler :: "exn \<Rightarrow> nat \<times> json" where
  "globalErrorHandler err =
     (500, error_response (or_default (message_of err) (js ''Internal Server Error'')))"

definition kind_of :: "json \<Rightarrow> json option" where
  "kind_of response = get_prop response (js ''type'')"

definition ask_handler ::
  "runtime \<Rightarrow> config \<Rightarrow> world \<Rightarrow> request \<Rightarrow> (jstring \<times> jstring \<times> json) list \<Rightarrow> reply"
where
  "ask_handler rt cfg w req store =
     (case body_question req of
        Some (JStr question) \<Rightarrow>
          if trim question = [] then
            \<lparr> status = 400,
              body = error_response (js ''Question is required and must be a non-empty string.''),
              history = store, trace = [] \<rparr>
          else
            (let (llmResponse, tr) = getAnswerFromLLM rt cfg w question in
             if overflows rt Stringify llmResponse then
               \<lparr> status = fst (globalErrorHandler stack_overflow),
                 body = snd (globalErrorHandler stack_overflow),
                 history = store, trace = tr \<rparr>
             else
               (let userId = (case auth_userId req of None \<Rightarrow> [] | Some u \<Rightarrow> u);
                    store' =
                      (if userId \<noteq> []
                          \<and> (kind_of llmResponse = Some (JStr (js ''text''))
                               \<or> kind_of llmResponse = Some (JStr (js ''list'')))
                       then
                         (if save_fails w (userId, question, llmResponse) then store
                          else store @ [(userId, question, llmResponse)])
                       else store)
                in \<lparr> status = 200, body = llmResponse, history = store', trace = tr \<rparr>))
      | _ \<Rightarrow>
          \<lparr> status = 400,
            body = error_response (js ''Question is required and must be a non-empty string.''),
            history = store, trace = [] \<rparr>)"

section \<open>Predicates of the specification\<close>

text \<open>
  \<open>legal_kind\<close>: the discriminant of a response is one of the three legal values.
  \<open>has_required_fields\<close>: the object has a recognized \<^verbatim>\<open>type\<close> and the fields
  that the validator requires of that variant.
\<close>

definition legal_kind :: "json \<Rightarrow> bool" where
  "legal_kind response \<longleftrightarrow>
     kind_of response = Some (JStr (js ''text'')) \<or>
     kind_of response = Some (JStr (js ''list'')) \<or>
     kind_of response = Some (JStr (js ''error''))"







section \<open>A concrete deployment\<close>

text \<open>
  A configuration with both keys and a short knowledge document, and a world in which
  the primary provider times out, the secondary provider answers with a text response
  and every database write fails.  They instantiate the theorems below.
\<close>

definition demo_config :: config where
  "demo_config = \<lparr> OPENROUTER_API_KEY = js ''key-1'', GOOGLE_AI_API_KEY = js ''key-2'',
      KNOWLEDGE_BASE_CONTENT = js ''A SAFE is a Simple Agreement for Future Equity.'',
      KNOWLEDGE_BASE_CONTENT_OVERRIDE = None \<rparr>"

definition demo_world :: world where
  "demo_world = \<lparr> openrouter_post = (\<lambda>model prompt. Inl (Error (js ''timeout of 75000ms exceeded''))),
      google_generateContent = (\<lambda>prompt. Inr (js ''{\"type\":\"text\",\"answer\":\"**ok**\"}'')),
      save_fails = (\<lambda>entry. True) \<rparr>"

section \<open>Properties of the parser\<close>

text \<open>
  Every parsing function consumes at least one code unit, so the length tests in
  \<open>parse_elements\<close> and \<open>parse_members\<close> never fail: the two functions satisfy
  the equations without the tests.
\<close>

lemma parse_string_chars_shorter:
  "parse_string_chars cs = Some (str, r) \<Longrightarrow> length r < length cs"
proof (induction cs arbitrary: str r rule: parse_string_chars.induct)
  case 1
  then show ?case by simp
next
  case (2 c cs)
  then show ?case
    by (fastforce split: if_splits list.splits option.splits)
qed

lemma lex_digits_shorter: "lex_digits s = Some (ds, r) \<Longrightarrow> length r \<le> length s"
  by (auto simp: lex_digits_def Let_def length_dropWhile_le split: if_splits)

lemma lex_int_shorter: "lex_int s = Some (i, r) \<Longrightarrow> length r < length s"
  by (auto simp: lex_int_def less_Suc_eq_le length_dropWhile_le split: list.splits if_splits)

lemma lex_frac_shorter: "lex_frac s = Some (f, r) \<Longrightarrow> length r \<le> length s"
  by (auto simp: lex_frac_def split: list.splits if_splits dest!: lex_digits_shorter)

lemma lex_exp_shorter: "lex_exp s = Some (e, r) \<Longrightarrow> length r \<le> length s"
  by (auto simp: lex_exp_def split: list.splits if_splits dest!: lex_digits_shorter)

lemma lex_number_shorter: "lex_number s = Some (l, r) \<Longrightarrow> length r < length s"
  by (auto simp: lex_number_def Let_def split: list.splits if_splits option.splits prod.splits
        dest!: lex_int_shorter lex_frac_shorter lex_exp_shorter)

lemma parse_value_shorter:
  "\<forall>v r. parse_value s = Some (v, r) \<longrightarrow> length r < length s"
  "\<forall>vs r. parse_elements s1 = Some (vs, r) \<longrightarrow> length r < length s1"
  "\<forall>ms r. parse_members s2 = Some (ms, r) \<longrightarrow> length r < length s2"
proof (induction s and s1 and s2 rule: parse_value_parse_elements_parse_members.induct)
  case (1 s)
  show ?case
  proof (intro allI impI)
    fix v r assume a: "parse_value s = Some (v, r)"
    show "length r < length s"
    proof (cases "dropWhile is_json_ws s")
      case Nil
      with a show ?thesis by (simp add: parse_value.simps [of s])
    next
      case (Cons c cs)
      have cs: "length cs < length s" using Cons by (rule dropWhile_Cons_shorter)
      have le: "length (c # cs) \<le> length s"
        using length_dropWhile_le [of is_json_ws s] Cons by simp
      consider (obj) "c = 0x7B" | (arr) "c \<noteq> 0x7B" "c = 0x5B"
        | (str) "c \<noteq> 0x7B" "c \<noteq> 0x5B" "c = 0x22"
        | (other) "c \<noteq> 0x7B" "c \<noteq> 0x5B" "c \<noteq> 0x22" by blast
      then show ?thesis
      proof cases
        case obj
        show ?thesis
        proof (cases "dropWhile is_json_ws cs")
          case Nil
          with a Cons obj show ?thesis by (simp add: parse_value.simps [of s])
        next
          case d: (Cons d r')
          have r': "length r' < length cs" using d by (rule dropWhile_Cons_shorter)
          show ?thesis
          proof (cases "d = 0x7D")
            case True
            with a Cons obj d r' cs show ?thesis by (simp add: parse_value.simps [of s])
          next
            case False
            from "1.IH"(1) [OF Cons obj d False]
            have "\<forall>ms r. parse_members cs = Some (ms, r) \<longrightarrow> length r < length cs" .
            with a Cons obj d False cs show ?thesis
              by (auto simp: parse_value.simps [of s])
          qed
        qed
      next
        case arr
        show ?thesis
        proof (cases "dropWhile is_json_ws cs")
          case Nil
          with a Cons arr show ?thesis by (simp add: parse_value.simps [of s])
        next
          case d: (Cons d r')
          have r': "length r' < length cs" using d by (rule dropWhile_Cons_shorter)
          show ?thesis
          proof (cases "d = 0x5D")
            case True
            with a Cons arr d r' cs show ?thesis by (simp add: parse_value.simps [of s])
          next
            case False
            from "1.IH"(2) [OF Cons arr d False]
            have "\<forall>vs r. parse_elements cs = Some (vs, r) \<longrightarrow> length r < length cs" .
            with a Cons arr d False cs show ?thesis
              by (auto simp: parse_value.simps [of s])
          qed
        qed
      next
        case str
        with a Cons cs show ?thesis
          by (auto simp: parse_value.simps [of s] dest!: parse_string_chars_shorter)
      next
        case other
        with a Cons le show ?thesis
          by (auto simp: parse_value.simps [of s] split: if_splits dest!: lex_number_shorter)
      qed
    qed
  qed
next
  case (2 s)
  show ?case
  proof (intro allI impI)
    fix vs r assume a: "parse_elements s = Some (vs, r)"
    then obtain v r0 where v: "parse_value s = Some (v, r0)"
      by (auto simp: parse_elements.simps [of s] split: option.splits)
    from "2.IH"(1) v have r0: "length r0 < length s" by blast
    show "length r < length s"
    proof (cases "dropWhile is_json_ws r0")
      case Nil
      with a v show ?thesis by (simp add: parse_elements.simps [of s])
    next
      case (Cons c r')
      have r': "length r' < length r0" using Cons by (rule dropWhile_Cons_shorter)
      show ?thesis
      proof (cases "c = 0x2C")
        case True
        have lt: "length r' < length s" using r' r0 by simp
        from "2.IH"(2) [OF v refl Cons True lt]
        have "\<forall>vs r. parse_elements r' = Some (vs, r) \<longrightarrow> length r < length r'" .
        with a v Cons True lt show ?thesis
          by (auto simp: parse_elements.simps [of s])
      next
        case False
        with a v Cons r' r0 show ?thesis
          by (auto simp: parse_elements.simps [of s] split: if_splits)
      qed
    qed
  qed
next
  case (3 s)
  show ?case
  proof (intro allI impI)
    fix ms r assume a: "parse_members s = Some (ms, r)"
    from a obtain q cs where q: "dropWhile is_json_ws s = q # cs" "q = 0x22"
      by (auto simp: parse_members.simps [of s] split: list.splits if_splits)
    from a q obtain k r0 where k: "parse_string_chars cs = Some (k, r0)"
      by (auto simp: parse_members.simps [of s] split: option.splits)
    from a q k obtain col r1 where col: "dropWhile is_json_ws r0 = col # r1"
        "col = 0x3A" "length r1 < length s"
      by (auto simp: parse_members.simps [of s] split: list.splits if_splits)
    from a q k col obtain v r2 where v: "parse_value r1 = Some (v, r2)"
      by (auto simp: parse_members.simps [of s] split: option.splits)
    have c1: "col = 0x3A \<and> length r1 < length s" using col by simp
    from "3.IH"(1) [OF q(1) q(2) k refl col(1) c1] v
    have r2: "length r2 < length r1" by blast
    show "length r < length s"
    proof (cases "dropWhile is_json_ws r2")
      case Nil
      with a q k col v show ?thesis by (simp add: parse_members.simps [of s])
    next
      case (Cons c r3)
      have r3: "length r3 < length r2" using Cons by (rule dropWhile_Cons_shorter)
      show ?thesis
      proof (cases "c = 0x2C")
        case True
        have lt: "length r3 < length s" using r3 r2 col(3) by simp
        from "3.IH"(2) [OF q(1) q(2) k refl col(1) c1 v refl Cons True lt]
        have "\<forall>ms r. parse_members r3 = Some (ms, r) \<longrightarrow> length r < length r3" .
        with a q k col v Cons True lt show ?thesis
          by (auto simp: parse_members.simps [of s])
      next
        case False
        with a q k col v Cons r3 r2 show ?thesis
          by (auto simp: parse_members.simps [of s] split: if_splits)
      qed
    qed
  qed
qed

lemma parse_elements_unguarded:
  "parse_elements s =
     (case parse_value s of
        None \<Rightarrow> None
      | Some (v, r) \<Rightarrow>
          (case dropWhile is_json_ws r of
             [] \<Rightarrow> None
           | c # r' \<Rightarrow>
               if c = 0x2C then map_option (\<lambda>(vs, rest). (v # vs, rest)) (parse_elements r')
               else if c = 0x5D then Some ([v], r')
               else None))"
proof (cases "parse_value s")
  case None
  then show ?thesis by (simp add: parse_elements.simps [of s] del: dropWhile_eq_Nil_conv)
next
  case (Some p)
  obtain v r where p: "p = (v, r)" by (cases p)
  have r: "length r < length s" using Some p parse_value_shorter(1) by blast
  show ?thesis
  proof (cases "dropWhile is_json_ws r")
    case Nil
    with Some p show ?thesis by (simp add: parse_elements.simps [of s] del: dropWhile_eq_Nil_conv)
  next
    case (Cons c r')
    have "length r' < length s" using dropWhile_Cons_shorter [OF Cons] r by simp
    with Some p Cons show ?thesis by (simp add: parse_elements.simps [of s] del: dropWhile_eq_Nil_conv)
  qed
qed

lemma parse_members_unguarded:
  "parse_members s =
     (case dropWhile is_json_ws s of
        [] \<Rightarrow> None
      | q # cs \<Rightarrow>
          if q = 0x22 then
            (case parse_string_chars cs of
               None \<Rightarrow> None
             | Some (k, r) \<Rightarrow>
                 (case dropWhile is_json_ws r of
                    [] \<Rightarrow> None
                  | col # r1 \<Rightarrow>
                      if col = 0x3A then
                        (case parse_value r1 of
                           None \<Rightarrow> None
                         | Some (v, r2) \<Rightarrow>
                             (case dropWhile is_json_ws r2 of
                                [] \<Rightarrow> None
                              | c # r3 \<Rightarrow>
                                  if c = 0x2C then
                                    map_option (\<lambda>(ms, rest). ((k, v) # ms, rest))
                                      (parse_members r3)
                                  else if c = 0x7D then Some ([(k, v)], r3)
                                  else None))
                      else None))
          else None)"
proof (cases "dropWhile is_json_ws s")
  case Nil
  then show ?thesis by (simp add: parse_members.simps [of s] del: dropWhile_eq_Nil_conv)
next
  case q: (Cons q cs)
  have cs: "length cs < length s" using q by (rule dropWhile_Cons_shorter)
  show ?thesis
  proof (cases "parse_string_chars cs")
    case None
    with q show ?thesis by (simp add: parse_members.simps [of s] del: dropWhile_eq_Nil_conv)
  next
    case (Some p)
    obtain k r where p: "p = (k, r)" by (cases p)
    have r: "length r < length cs" using Some p parse_string_chars_shorter by blast
    show ?thesis
    proof (cases "dropWhile is_json_ws r")
      case Nil
      with q Some p show ?thesis by (simp add: parse_members.simps [of s] del: dropWhile_eq_Nil_conv)
    next
      case col: (Cons col r1)
      have r1: "length r1 < length s" using dropWhile_Cons_shorter [OF col] r cs by simp
      show ?thesis
      proof (cases "parse_value r1")
        case None
        with q Some p col show ?thesis by (simp add: parse_members.simps [of s] del: dropWhile_eq_Nil_conv)
      next
        case v: (Some pv)
        obtain v r2 where pv: "pv = (v, r2)" by (cases pv)
        have r2: "length r2 < length r1" using v pv parse_value_shorter(1) by blast
        show ?thesis
        proof (cases "dropWhile is_json_ws r2")
          case Nil
          with q Some p col v pv r1 show ?thesis by (simp add: parse_members.simps [of s] del: dropWhile_eq_Nil_conv)
        next
          case (Cons c r3)
          have "length r3 < length s" using dropWhile_Cons_shorter [OF Cons] r2 r1 by simp
          with q Some p col v pv r1 Cons show ?thesis
            by (simp add: parse_members.simps [of s] del: dropWhile_eq_Nil_conv)
        qed
      qed
    qed
  qed
qed

text \<open>
  Scenarios 1 and 2 of the specification: a plain text response, and a list response
  wrapped in a code fence labelled \<^verbatim>\<open>json\<close>.
\<close>

lemma scenario_text_response:
  "parseAndValidateAIResponse rt
     (js ''{\"type\":\"text\",\"answer\":\"A SAFE is a Simple Agreement for Future Equity.\",\"follow_up\":null}'')
     source
   = Inr (JObj [(js ''type'', JStr (js ''text'')),
                (js ''answer'', JStr (js ''A SAFE is a Simple Agreement for Future Equity.'')),
                (js ''follow_up'', JNull)])"
  by code_simp

lemma scenario_fenced_list_response:
  "parseAndValidateAIResponse rt
     (js ''```json\<newline>{\"type\":\"list\",\"title\":\"Tips\",\"items\":[{\"point\":\"Plan\",\"detail\":\"Plan ahead\"}]}\<newline>```'')
     source
   = Inr (JObj [(js ''type'', JStr (js ''list'')), (js ''title'', JStr (js ''Tips'')),
                (js ''items'', JArr [JObj [(js ''point'', JStr (js ''Plan'')),
                                           (js ''detail'', JStr (js ''Plan ahead''))]])])"
  by code_simp

section \<open>Properties of the extraction\<close>

lemma dropWhile_rev_strip:
  assumes "dropWhile P a = a"
  shows "dropWhile P (rev (dropWhile P (rev a))) = rev (dropWhile P (rev a))"
proof -
  define b where "b = rev (dropWhile P (rev a))"
  have "\<exists>zs. a = b @ zs"
    unfolding b_def by (metis rev_append rev_rev_ident takeWhile_dropWhile_id)
  then obtain zs where a: "a = b @ zs" by blast
  have "dropWhile P b = b"
  proof (cases b)
    case Nil
    then show ?thesis by simp
  next
    case (Cons x xs)
    then have "\<not> P x" using assms a
      by (metis append_Cons dropWhile_eq_Cons_conv)
    then show ?thesis using Cons by simp
  qed
  then show ?thesis by (simp only: b_def)
qed

lemma trim_trim: "trim (trim s) = trim s"
proof -
  let ?a = "dropWhile is_ws s"
  have a: "dropWhile is_ws ?a = ?a" by (simp add: dropWhile_idem)
  have "dropWhile is_ws (trim s) = trim s"
    unfolding trim_def using dropWhile_rev_strip [OF a] .
  then show ?thesis
    by (simp add: trim_def dropWhile_idem)
qed

lemma length_trim: "length (trim s) \<le> length s"
  unfolding trim_def
  by (metis length_dropWhile_le length_rev order_trans)

lemma first_some_SomeD:
  "first_some f xs = Some y \<Longrightarrow> \<exists>x \<in> set xs. f x = Some y"
  by (induction xs) (auto split: option.splits)

lemma fence_tail_length: "fence_tail v \<Longrightarrow> 3 \<le> length v"
proof -
  assume "fence_tail v"
  then have "length (dropWhile is_ws v) = 3" by (simp add: fence_tail_def backticks_def)
  moreover have "length (dropWhile is_ws v) \<le> length v" by (rule length_dropWhile_le)
  ultimately show ?thesis by simp
qed

lemma fence_group_length: "fence_group u = Some g \<Longrightarrow> length g + 3 \<le> length u"
proof -
  assume "fence_group u = Some g"
  then obtain m where m: "m \<le> length u" "fence_tail (drop m u)" "g = take m u"
    unfolding fence_group_def
    by (fastforce dest!: first_some_SomeD split: if_splits)
  from fence_tail_length [OF m(2)] m(1,3) show ?thesis by simp
qed

lemma fence_space_length: "fence_space r = Some g \<Longrightarrow> length g + 3 \<le> length r"
proof -
  assume "fence_space r = Some g"
  then obtain k where "fence_group (drop k r) = Some g"
    unfolding fence_space_def by (blast dest!: first_some_SomeD)
  from fence_group_length [OF this] show ?thesis by simp
qed

lemma fence_label_length: "fence_label r = Some g \<Longrightarrow> length g + 3 \<le> length r"
proof -
  assume "fence_label r = Some g"
  then have "fence_space (drop 4 r) = Some g \<or> fence_space r = Some g"
    unfolding fence_label_def by (auto split: if_splits option.splits)
  then show ?thesis by (auto dest!: fence_space_length)
qed

lemma fence_match_length: "fence_match t = Some g \<Longrightarrow> length g + 6 \<le> length t"
  unfolding fence_match_def
  by (auto dest!: fence_label_length split: if_splits)

lemma trim_jsonStringToParse: "trim (jsonStringToParse x) = jsonStringToParse x"
  by (simp add: jsonStringToParse_def Let_def trim_trim split: option.splits)

text \<open>
  Claim C6, as amended.  The extraction removes one level of fencing only, so it
  is idempotent at \<open>x\<close> exactly when what it returns for \<open>x\<close> is not again a
  complete code fence with a non-empty body.
\<close>

theorem C6_extraction_idempotent_unless_fenced:
  "jsonStringToParse (jsonStringToParse x) = jsonStringToParse x
     \<longleftrightarrow> \<not> is_fenced (jsonStringToParse x)"
proof -
  define y where "y = jsonStringToParse x"
  have ty: "trim y = y" unfolding y_def by (rule trim_jsonStringToParse)
  show ?thesis
  proof (cases "fence_match y")
    case None
    then show ?thesis
      unfolding y_def [symmetric] by (simp add: jsonStringToParse_def [of y] is_fenced_def ty)
  next
    case (Some g)
    have "length (trim g) < length y"
      using fence_match_length [OF Some] length_trim [of g] by simp
    then have "trim g \<noteq> y" by auto
    then show ?thesis
      unfolding y_def [symmetric] using Some
      by (simp add: jsonStringToParse_def [of y] is_fenced_def ty)
  qed
qed

theorem C6_extraction_idempotent_witness:
  "\<not> is_fenced (jsonStringToParse (js ''```json {} ```'')) \<and>
   jsonStringToParse (jsonStringToParse (js ''```json {} ```'')) =
     jsonStringToParse (js ''```json {} ```'')"
  using C6_extraction_idempotent_unless_fenced [of "js ''```json {} ```''"]
  by code_simp

text \<open>
  Claim C6 as stated fails: a fence nested in a fence is unwrapped once by the
  first extraction and once more by the second.
\<close>

theorem C6_extraction_not_idempotent:
  "jsonStringToParse (jsonStringToParse (js ''``````a``````'')) \<noteq>
     jsonStringToParse (js ''``````a``````'')"
  by code_simp

section \<open>Properties of the validator\<close>

lemma map_of_obj_put:
  "map_of (obj_put k v ps) k' = (if k' = k then Some v else map_of ps k')"
  by (induction ps) auto


lemma key_distinct:
  "js ''type'' \<noteq> js ''follow_up''" "js ''type'' \<noteq> js ''answer''"
  "js ''type'' \<noteq> js ''title''" "js ''type'' \<noteq> js ''items''"
  "js ''type'' \<noteq> js ''message''"
  "js ''follow_up'' \<noteq> js ''answer''" "js ''follow_up'' \<noteq> js ''title''"
  "js ''follow_up'' \<noteq> js ''items''" "js ''follow_up'' \<noteq> js ''message''"
  "js ''title'' \<noteq> js ''items''" "js ''items'' \<noteq> js ''title''"
  "js ''answer'' \<noteq> js ''follow_up''" "js ''title'' \<noteq> js ''follow_up''"
  "js ''items'' \<noteq> js ''follow_up''" "js ''message'' \<noteq> js ''follow_up''"
  "js ''text'' \<noteq> js ''list''" "js ''text'' \<noteq> js ''error''" "js ''list'' \<noteq> js ''error''"
  "js ''list'' \<noteq> js ''text''" "js ''error'' \<noteq> js ''text''" "js ''error'' \<noteq> js ''list''"
  by (simp_all add: js_def)

lemma map_of_normalize_follow_up:
  "k \<noteq> js ''follow_up'' \<Longrightarrow> map_of (normalize_follow_up ps) k = map_of ps k"
  by (simp add: normalize_follow_up_def map_of_obj_put split: option.splits json.splits)


lemma follow_up_normalized:
  "map_of (normalize_follow_up ps) (js ''follow_up'') =
     (case map_of ps (js ''follow_up'') of
        None \<Rightarrow> None
      | Some (JStr s) \<Rightarrow> if s \<noteq> [] then Some (JStr (removeMarkdownBold s)) else Some JNull
      | Some v \<Rightarrow> Some JNull)"
  by (simp add: normalize_follow_up_def map_of_obj_put split: option.splits json.splits)

lemma legal_kind_error_response: "legal_kind (error_response m)"
  by (simp add: legal_kind_def kind_of_def error_response_def)

lemma legal_kind_JObj:
  "legal_kind (JObj ps) \<longleftrightarrow>
     map_of ps (js ''type'') = Some (JStr (js ''text'')) \<or>
     map_of ps (js ''type'') = Some (JStr (js ''list'')) \<or>
     map_of ps (js ''type'') = Some (JStr (js ''error''))"
  by (simp add: legal_kind_def kind_of_def)

lemma warn_with_data_Inr:
  "warn_with_data rt d response = Inr r \<Longrightarrow> r = response"
  by (simp add: warn_with_data_def split: if_splits)

lemma warn_with_data_Inl:
  "warn_with_data rt d response = Inl e \<Longrightarrow> e = stack_overflow"
  by (simp add: warn_with_data_def split: if_splits)

lemma warn_with_data_no_overflow:
  "\<not> overflows rt StringifyIndented d \<Longrightarrow> warn_with_data rt d response = Inr response"
  by (simp add: warn_with_data_def)

lemma ToString_throws:
  "ToString rt v = Inl e \<Longrightarrow>
     e = stack_overflow \<or> e = TypeError (js ''Cannot convert object to primitive value'')"
  "join rt xs = Inl e \<Longrightarrow>
     e = stack_overflow \<or> e = TypeError (js ''Cannot convert object to primitive value'')"
  by (induction rt v and rt xs rule: ToString_join.induct)
     (auto split: if_splits sum.splits)

lemma validate_legal_kind:
  assumes "validate rt source v = Inr r"
  shows "legal_kind r"
proof (cases v)
  case (JObj ps0)
  show ?thesis
  proof (cases "map_of ps0 (js ''type'')")
    case None
    with JObj assms show ?thesis
      by (auto simp: validate_def legal_kind_error_response dest!: warn_with_data_Inr)
  next
    case (Some ty)
    have ty: "map_of (normalize_follow_up ps0) (js ''type'') = Some ty"
      using Some by (simp add: map_of_normalize_follow_up key_distinct)
    from assms JObj Some ty show ?thesis
      by (auto simp: validate_def Let_def legal_kind_error_response legal_kind_JObj
            map_of_obj_put key_distinct
          split: if_splits option.splits json.splits sum.splits
          dest!: warn_with_data_Inr)
  qed
qed (use assms in \<open>auto simp: validate_def legal_kind_error_response dest!: warn_with_data_Inr\<close>)

lemma validate_throws:
  assumes "validate rt source v = Inl e"
  shows "e = stack_overflow \<or> e = TypeError (js ''Cannot convert object to primitive value'')"
  using assms
  by (auto simp: validate_def Let_def
        split: if_splits option.splits json.splits sum.splits
        dest!: warn_with_data_Inl ToString_throws(1))

lemma validator_total:
  "(\<exists>r. parseAndValidateAIResponse rt raw source = Inr r \<and> legal_kind r) \<or>
   parseAndValidateAIResponse rt raw source =
     Inl (TypeError (js ''Cannot convert object to primitive value'')) \<or>
   parseAndValidateAIResponse rt raw source = Inl stack_overflow"
proof (cases "parseAndValidateAIResponse rt raw source")
  case (Inl e)
  then show ?thesis
    by (auto simp: parseAndValidateAIResponse_def split: option.splits dest: validate_throws)
next
  case (Inr r)
  then show ?thesis
    by (auto simp: parseAndValidateAIResponse_def legal_kind_error_response
          split: option.splits dest: validate_legal_kind)
qed




text \<open>
  Claim C1.  The validator is not total: when \<^verbatim>\<open>type\<close> is an object that has
  an own property \<^verbatim>\<open>toString\<close>, the default branch of the \<^verbatim>\<open>switch\<close> throws
  a \<^verbatim>\<open>TypeError\<close> while it builds its message.  (\<open>validator_total\<close> above: the
  only other exception is the \<^verbatim>\<open>RangeError\<close> of an exhausted stack, and every value
  that is returned has a legal kind.)
\<close>

theorem C1_validator_throws_TypeError:
  "parseAndValidateAIResponse rt (js ''{\"type\":{\"toString\":1}}'') source
     = Inl (TypeError (js ''Cannot convert object to primitive value''))"
  by code_simp




text \<open>
  Claim C4.  A \<^verbatim>\<open>follow_up\<close> that is the empty string is a string, yet the
  validator returns \<^verbatim>\<open>null\<close> in its place (\<open>follow_up_normalized\<close> above gives
  the value of the field in every case).
\<close>

theorem C4_empty_follow_up_becomes_null:
  "parseAndValidateAIResponse rt
       (js ''{\"type\":\"text\",\"answer\":\"a\",\"follow_up\":\"\"}'') source
     = Inr (JObj [(js ''type'', JStr (js ''text'')), (js ''answer'', JStr (js ''a'')),
                  (js ''follow_up'', JNull)])"
  by code_simp

text \<open>
  Claim C5, as amended.  When \<^verbatim>\<open>JSON.parse\<close> rejects the extracted text, the
  validator returns the error response with code \<^verbatim>\<open>PV01\<close> and the provider label.
  When the text parses to a value that is no object (a number, a string, a boolean,
  \<^verbatim>\<open>null\<close> or an array) and the logging call of line 234 can serialise that value
  without exhausting the stack, the code is \<^verbatim>\<open>PV02\<close>.
\<close>

theorem C5_unparseable_gives_PV01:
  "(JSON_parse (jsonStringToParse raw) = None \<longrightarrow>
      parseAndValidateAIResponse rt raw source
        = Inr (error_response
            (js ''AI service response from '' @ source @ js '' was not valid JSON. (E:PV01_''
               @ source @ js '')'')))
   \<and> (\<forall>v. JSON_parse (jsonStringToParse raw) = Some v \<and> (\<forall>ps. v \<noteq> JObj ps)
          \<and> \<not> overflows rt StringifyIndented v \<longrightarrow>
      parseAndValidateAIResponse rt raw source
        = Inr (error_response
            (js ''AI response from '' @ source @ js '' invalid structure. (E:PV02_''
               @ source @ js '')'')))"
  by (auto simp: parseAndValidateAIResponse_def validate_def PV01_def PV02_def
        warn_with_data_no_overflow split: json.splits)

theorem C5_unparseable_witness:
  "JSON_parse (jsonStringToParse (js ''not json at all'')) = None
   \<and> parseAndValidateAIResponse plain_numbers (js ''not json at all'') (js ''OpenRouter'')
       = Inr (error_response
           (js ''AI service response from OpenRouter was not valid JSON. (E:PV01_OpenRouter)''))
   \<and> JSON_parse (jsonStringToParse (js ''[1]'')) = Some (JArr [JNum (js ''1'')])
   \<and> parseAndValidateAIResponse plain_numbers (js ''[1]'') (js ''OpenRouter'')
       = Inr (error_response
           (js ''AI response from OpenRouter invalid structure. (E:PV02_OpenRouter)''))"
proof -
  have h1: "JSON_parse (jsonStringToParse (js ''not json at all'')) = None" by code_simp
  have h2: "JSON_parse (jsonStringToParse (js ''[1]'')) = Some (JArr [JNum (js ''1'')])"
    by code_simp
  have a: "js ''AI service response from '' @ js ''OpenRouter'' @ js '' was not valid JSON. (E:PV01_''
               @ js ''OpenRouter'' @ js '')''
           = js ''AI service response from OpenRouter was not valid JSON. (E:PV01_OpenRouter)''"
    by (simp add: js_def)
  have b: "js ''AI response from '' @ js ''OpenRouter'' @ js '' invalid structure. (E:PV02_''
               @ js ''OpenRouter'' @ js '')''
           = js ''AI response from OpenRouter invalid structure. (E:PV02_OpenRouter)''"
    by (simp add: js_def)
  have h3: "\<not> overflows plain_numbers StringifyIndented (JArr [JNum (js ''1'')])"
    by (simp add: plain_numbers_def)
  from C5_unparseable_gives_PV01 [of "js ''not json at all''" plain_numbers "js ''OpenRouter''"]
       C5_unparseable_gives_PV01 [of "js ''[1]''" plain_numbers "js ''OpenRouter''"]
       h1 h2 h3 a b
  show ?thesis by simp
qed

text \<open>
  Claim C5 as stated fails on a text that is valid JSON and no object: the answer
  carries \<^verbatim>\<open>PV02\<close>, not \<^verbatim>\<open>PV01\<close>.
\<close>

theorem C5_number_gives_PV02:
  "JSON_parse (jsonStringToParse (js ''42'')) = Some (JNum (js ''42''))
   \<and> parseAndValidateAIResponse plain_numbers (js ''42'') (js ''OpenRouter'')
       = Inr (error_response
           (js ''AI response from OpenRouter invalid structure. (E:PV02_OpenRouter)''))
   \<and> js ''AI response from OpenRouter invalid structure. (E:PV02_OpenRouter)''
       \<noteq> PV01 (js ''OpenRouter'')"
  by code_simp




section \<open>Properties of the orchestrator\<close>

lemma invocations_simps:
  "invocations [] = []"
  "invocations (tr @ tr') = invocations tr @ invocations tr'"
  "invocations (Invoked p # tr) = p # invocations tr"
  "invocations (Requested p x # tr) = invocations tr"
  by (simp_all add: invocations_def)

lemma attemptOpenRouter_trace:
  "invocations (snd (attemptOpenRouter rt cfg w q m tr)) = invocations tr @ [OpenRouter]"
  by (simp add: attemptOpenRouter_def Let_def invocations_simps
        split: sum.splits option.splits json.splits)

lemma getAnswerFromGoogleAI_trace:
  "invocations (snd (getAnswerFromGoogleAI rt cfg w q tr)) = invocations tr @ [GoogleAI]"
  by (simp add: getAnswerFromGoogleAI_def Let_def invocations_simps
        split: sum.splits option.splits json.splits)

lemma getAnswerFromGoogleAI_success:
  assumes "getAnswerFromGoogleAI rt cfg w q tr = (Inr r, tr')"
  shows "GOOGLE_AI_API_KEY cfg \<noteq> [] \<and>
         (\<exists>rawContent. google_generateContent w (fullPromptForGoogleAI cfg q) = Inr rawContent
            \<and> parseAndValidateAIResponse rt rawContent (js ''GoogleAI'') = Inr r)"
  using assms
  by (auto simp: getAnswerFromGoogleAI_def Let_def split: if_splits sum.splits)

lemma fallback_trace:
  assumes "commonPreChecks cfg = None"
    and "fst (attemptOpenRouter rt cfg w q DEFAULT_OPENROUTER_MODEL []) = Inl e"
    and "GOOGLE_AI_API_KEY cfg \<noteq> []"
  shows "invocations (snd (getAnswerFromLLM rt cfg w q)) = [OpenRouter, GoogleAI]"
proof -
  obtain ptr where p: "attemptOpenRouter rt cfg w q DEFAULT_OPENROUTER_MODEL [] = (Inl e, ptr)"
    using assms(2) by (cases "attemptOpenRouter rt cfg w q DEFAULT_OPENROUTER_MODEL []") auto
  have ptr: "invocations ptr = [OpenRouter]"
    using attemptOpenRouter_trace [of rt cfg w q DEFAULT_OPENROUTER_MODEL "[]"] p
    by (simp add: invocations_simps)
  obtain g gtr where g: "getAnswerFromGoogleAI rt cfg w q ptr = (g, gtr)"
    by (cases "getAnswerFromGoogleAI rt cfg w q ptr")
  have gtr: "invocations gtr = [OpenRouter, GoogleAI]"
    using getAnswerFromGoogleAI_trace [of rt cfg w q ptr] g ptr by simp
  from p g gtr assms show ?thesis
    by (auto simp: getAnswerFromLLM_def split: sum.splits)
qed

text \<open>
  Claim C3.  In a run that passes the pre-flight checks, the adapters are entered in
  the order OpenRouter, then possibly GoogleAI, each at most once and OpenRouter exactly
  once; GoogleAI is entered only when the OpenRouter call has thrown and the Google key
  is configured; and when OpenRouter throws and the GoogleAI adapter returns, the
  orchestrator returns that value, which is what the validator makes of the Google
  text under the label \<^verbatim>\<open>GoogleAI\<close>.
\<close>

theorem C3_fallback_ordering:
  assumes "commonPreChecks cfg = None"
  shows "(invocations (snd (getAnswerFromLLM rt cfg w q)) = [OpenRouter]
          \<or> invocations (snd (getAnswerFromLLM rt cfg w q)) = [OpenRouter, GoogleAI])
       \<and> (GoogleAI \<in> set (invocations (snd (getAnswerFromLLM rt cfg w q))) \<longrightarrow>
            (\<exists>e. fst (attemptOpenRouter rt cfg w q DEFAULT_OPENROUTER_MODEL []) = Inl e)
            \<and> GOOGLE_AI_API_KEY cfg \<noteq> [])
       \<and> (\<forall>e r tr'.
            fst (attemptOpenRouter rt cfg w q DEFAULT_OPENROUTER_MODEL []) = Inl e
            \<and> getAnswerFromGoogleAI rt cfg w q
                 (snd (attemptOpenRouter rt cfg w q DEFAULT_OPENROUTER_MODEL [])) = (Inr r, tr')
            \<longrightarrow> fst (getAnswerFromLLM rt cfg w q) = r
              \<and> (\<exists>rawContent.
                    google_generateContent w (fullPromptForGoogleAI cfg q) = Inr rawContent
                    \<and> parseAndValidateAIResponse rt rawContent (js ''GoogleAI'') = Inr r))"
proof -
  obtain p ptr where p: "attemptOpenRouter rt cfg w q DEFAULT_OPENROUTER_MODEL [] = (p, ptr)"
    by (cases "attemptOpenRouter rt cfg w q DEFAULT_OPENROUTER_MODEL []")
  have ptr: "invocations ptr = [OpenRouter]"
    using attemptOpenRouter_trace [of rt cfg w q DEFAULT_OPENROUTER_MODEL "[]"] p
    by (simp add: invocations_simps)
  show ?thesis
  proof (cases p)
    case (Inr v)
    with p ptr assms show ?thesis
      by (simp add: getAnswerFromLLM_def)
  next
    case (Inl e)
    show ?thesis
    proof (cases "GOOGLE_AI_API_KEY cfg = []")
      case True
      with Inl p ptr assms show ?thesis
        by (auto simp: getAnswerFromLLM_def dest: getAnswerFromGoogleAI_success)
    next
      case False
      obtain g gtr where g: "getAnswerFromGoogleAI rt cfg w q ptr = (g, gtr)"
        by (cases "getAnswerFromGoogleAI rt cfg w q ptr")
      have gtr: "invocations gtr = [OpenRouter, GoogleAI]"
        using getAnswerFromGoogleAI_trace [of rt cfg w q ptr] g ptr by simp
      from Inl p False g gtr assms show ?thesis
        by (auto simp: getAnswerFromLLM_def split: sum.splits dest: getAnswerFromGoogleAI_success)
    qed
  qed
qed

theorem C3_fallback_witness:
  "commonPreChecks demo_config = None
   \<and> invocations (snd (getAnswerFromLLM plain_numbers demo_config demo_world (js ''What is a SAFE?'')))
       = [OpenRouter, GoogleAI]
   \<and> fst (getAnswerFromLLM plain_numbers demo_config demo_world (js ''What is a SAFE?''))
       = JObj [(js ''type'', JStr (js ''text'')), (js ''answer'', JStr (js ''ok''))]"
proof -
  have h: "commonPreChecks demo_config = None"
    by (simp add: commonPreChecks_def demo_config_def effectiveKnowledgeBase_def js_def)
  have p: "fst (attemptOpenRouter plain_numbers demo_config demo_world (js ''What is a SAFE?'')
                 DEFAULT_OPENROUTER_MODEL []) = Inl (Error (js ''timeout of 75000ms exceeded''))"
    by (simp add: attemptOpenRouter_def demo_config_def demo_world_def Let_def js_def)
  have v: "parseAndValidateAIResponse plain_numbers (js ''{\"type\":\"text\",\"answer\":\"**ok**\"}'')
             (js ''GoogleAI'')
           = Inr (JObj [(js ''type'', JStr (js ''text'')), (js ''answer'', JStr (js ''ok''))])"
    by code_simp
  have t: "trim (js ''{\"type\":\"text\",\"answer\":\"**ok**\"}'') \<noteq> []"
    by code_simp
  have k: "GOOGLE_AI_API_KEY demo_config \<noteq> []"
    by (simp add: demo_config_def js_def)
  have g: "fst (getAnswerFromGoogleAI plain_numbers demo_config demo_world (js ''What is a SAFE?'')
             (snd (attemptOpenRouter plain_numbers demo_config demo_world (js ''What is a SAFE?'')
                 DEFAULT_OPENROUTER_MODEL [])))
           = Inr (JObj [(js ''type'', JStr (js ''text'')), (js ''answer'', JStr (js ''ok''))])"
    using v t k by (simp add: getAnswerFromGoogleAI_def Let_def demo_world_def)
  from C3_fallback_ordering [OF h, of plain_numbers demo_world "js ''What is a SAFE?''"] p g
  have r: "fst (getAnswerFromLLM plain_numbers demo_config demo_world (js ''What is a SAFE?''))
       = JObj [(js ''type'', JStr (js ''text'')), (js ''answer'', JStr (js ''ok''))]"
    by (metis prod.collapse)
  have "invocations (snd (getAnswerFromLLM plain_numbers demo_config demo_world (js ''What is a SAFE?'')))
       = [OpenRouter, GoogleAI]"
    using h p k by (rule fallback_trace)
  with h r show ?thesis by simp
qed

text \<open>
  Claim C7.  Without any key the orchestrator returns the \<^verbatim>\<open>CFG00\<close> error and
  the trace is empty; with a key and an empty effective knowledge document it returns
  the \<^verbatim>\<open>CFG02\<close> error and the trace is empty; a missing Google key alone does
  not fail the pre-flight checks.
\<close>

theorem C7_prechecks:
  "(OPENROUTER_API_KEY cfg = [] \<and> GOOGLE_AI_API_KEY cfg = [] \<longrightarrow>
      getAnswerFromLLM rt cfg w q =
        (error_response
           (js ''Critical Error: AI service API key(s) missing. Contact support. (E:CFG00)''), []))
   \<and> ((OPENROUTER_API_KEY cfg \<noteq> [] \<or> GOOGLE_AI_API_KEY cfg \<noteq> [])
        \<and> effectiveKnowledgeBase cfg = [] \<longrightarrow>
      getAnswerFromLLM rt cfg w q =
        (error_response
           (js ''Critical Error: Knowledge base unavailable. Contact support. (E:CFG02)''), []))
   \<and> (OPENROUTER_API_KEY cfg \<noteq> [] \<and> GOOGLE_AI_API_KEY cfg = []
        \<and> effectiveKnowledgeBase cfg \<noteq> [] \<longrightarrow>
      commonPreChecks cfg = None)"
  by (auto simp: getAnswerFromLLM_def commonPreChecks_def)

theorem C7_prechecks_witness:
  "getAnswerFromLLM plain_numbers
       (demo_config \<lparr> OPENROUTER_API_KEY := [], GOOGLE_AI_API_KEY := [] \<rparr>) demo_world (js ''q'')
     = (error_response
          (js ''Critical Error: AI service API key(s) missing. Contact support. (E:CFG00)''), [])
   \<and> getAnswerFromLLM plain_numbers
       (demo_config \<lparr> KNOWLEDGE_BASE_CONTENT := [] \<rparr>) demo_world (js ''q'')
     = (error_response
          (js ''Critical Error: Knowledge base unavailable. Contact support. (E:CFG02)''), [])
   \<and> commonPreChecks (demo_config \<lparr> GOOGLE_AI_API_KEY := [] \<rparr>) = None"
proof -
  have a: "OPENROUTER_API_KEY (demo_config \<lparr> OPENROUTER_API_KEY := [], GOOGLE_AI_API_KEY := [] \<rparr>) = []
     \<and> GOOGLE_AI_API_KEY (demo_config \<lparr> OPENROUTER_API_KEY := [], GOOGLE_AI_API_KEY := [] \<rparr>) = []"
    by simp
  have b: "(OPENROUTER_API_KEY (demo_config \<lparr> KNOWLEDGE_BASE_CONTENT := [] \<rparr>) \<noteq> []
            \<or> GOOGLE_AI_API_KEY (demo_config \<lparr> KNOWLEDGE_BASE_CONTENT := [] \<rparr>) \<noteq> [])
     \<and> effectiveKnowledgeBase (demo_config \<lparr> KNOWLEDGE_BASE_CONTENT := [] \<rparr>) = []"
    by (simp add: demo_config_def effectiveKnowledgeBase_def js_def)
  have c: "OPENROUTER_API_KEY (demo_config \<lparr> GOOGLE_AI_API_KEY := [] \<rparr>) \<noteq> []
     \<and> GOOGLE_AI_API_KEY (demo_config \<lparr> GOOGLE_AI_API_KEY := [] \<rparr>) = []
     \<and> effectiveKnowledgeBase (demo_config \<lparr> GOOGLE_AI_API_KEY := [] \<rparr>) \<noteq> []"
    by (simp add: demo_config_def effectiveKnowledgeBase_def js_def)
  from C7_prechecks [of "demo_config \<lparr> OPENROUTER_API_KEY := [], GOOGLE_AI_API_KEY := [] \<rparr>"
          plain_numbers demo_world "js ''q''"] a
       C7_prechecks [of "demo_config \<lparr> KNOWLEDGE_BASE_CONTENT := [] \<rparr>"
          plain_numbers demo_world "js ''q''"] b
       C7_prechecks [of "demo_config \<lparr> GOOGLE_AI_API_KEY := [] \<rparr>"
          plain_numbers demo_world "js ''q''"] c
  show ?thesis by blast
qed

section \<open>Properties of the request handler\<close>

lemma attemptOpenRouter_save_fails:
  "attemptOpenRouter rt cfg (w \<lparr> save_fails := f \<rparr>) q m tr = attemptOpenRouter rt cfg w q m tr"
  by (simp add: attemptOpenRouter_def Let_def)

lemma getAnswerFromGoogleAI_save_fails:
  "getAnswerFromGoogleAI rt cfg (w \<lparr> save_fails := f \<rparr>) q tr
     = getAnswerFromGoogleAI rt cfg w q tr"
  by (simp add: getAnswerFromGoogleAI_def Let_def)

lemma getAnswerFromLLM_save_fails:
  "getAnswerFromLLM rt cfg (w \<lparr> save_fails := f \<rparr>) q = getAnswerFromLLM rt cfg w q"
  unfolding getAnswerFromLLM_def attemptOpenRouter_save_fails getAnswerFromGoogleAI_save_fails
  by (rule refl)

text \<open>
  Claim C8.  The handler leaves the history as it was or appends exactly one entry,
  which holds the response it returns; it appends only for a present user identity and
  a response of kind text or list; an error response or a missing identity writes
  nothing; and the status and the body of the reply do not depend on which writes
  fail.
\<close>

theorem C8_history_best_effort:
  "(history (ask_handler rt cfg w req store) = store
      \<or> (\<exists>userId question.
            auth_userId req = Some userId \<and> userId \<noteq> []
          \<and> body_question req = Some (JStr question)
          \<and> \<not> save_fails w (userId, question, body (ask_handler rt cfg w req store))
          \<and> (kind_of (body (ask_handler rt cfg w req store)) = Some (JStr (js ''text''))
               \<or> kind_of (body (ask_handler rt cfg w req store)) = Some (JStr (js ''list'')))
          \<and> history (ask_handler rt cfg w req store)
               = store @ [(userId, question, body (ask_handler rt cfg w req store))]))
   \<and> (kind_of (body (ask_handler rt cfg w req store)) = Some (JStr (js ''error'')) \<longrightarrow>
        history (ask_handler rt cfg w req store) = store)
   \<and> (auth_userId req = None \<or> auth_userId req = Some [] \<longrightarrow>
        history (ask_handler rt cfg w req store) = store)
   \<and> status (ask_handler rt cfg (w \<lparr> save_fails := f \<rparr>) req store)
        = status (ask_handler rt cfg w req store)
   \<and> body (ask_handler rt cfg (w \<lparr> save_fails := f \<rparr>) req store)
        = body (ask_handler rt cfg w req store)"
proof -
  show ?thesis
  proof (cases "\<exists>question. body_question req = Some (JStr question) \<and> trim question \<noteq> []")
    case False
    then have "\<And>w. ask_handler rt cfg w req store =
        \<lparr> status = 400,
          body = error_response (js ''Question is required and must be a non-empty string.''),
          history = store, trace = [] \<rparr>"
      by (auto simp: ask_handler_def split: option.splits json.splits)
    then show ?thesis by simp
  next
    case True
    then obtain question where q: "body_question req = Some (JStr question)" "trim question \<noteq> []"
      by blast
    obtain r tr where r: "getAnswerFromLLM rt cfg w question = (r, tr)"
      by (cases "getAnswerFromLLM rt cfg w question")
    then have r': "getAnswerFromLLM rt cfg (w \<lparr> save_fails := f \<rparr>) question = (r, tr)"
      by (simp add: getAnswerFromLLM_save_fails)
    show ?thesis
      using q r r'
      by (cases "auth_userId req") (auto simp: ask_handler_def Let_def key_distinct)
  qed
qed

theorem C8_history_witness:
  "kind_of (body (ask_handler plain_numbers
        (demo_config \<lparr> OPENROUTER_API_KEY := [], GOOGLE_AI_API_KEY := [] \<rparr>) demo_world
        \<lparr> body_question = Some (JStr (js ''What is a SAFE?'')), auth_userId = Some (js ''user_1'') \<rparr>
        [])) = Some (JStr (js ''error''))
   \<and> history (ask_handler plain_numbers
        (demo_config \<lparr> OPENROUTER_API_KEY := [], GOOGLE_AI_API_KEY := [] \<rparr>) demo_world
        \<lparr> body_question = Some (JStr (js ''What is a SAFE?'')), auth_userId = Some (js ''user_1'') \<rparr>
        []) = []
   \<and> history (ask_handler plain_numbers demo_config demo_world
        \<lparr> body_question = Some (JStr (js ''What is a SAFE?'')), auth_userId = None \<rparr>
        []) = []"
proof -
  let ?cfg = "demo_config \<lparr> OPENROUTER_API_KEY := [], GOOGLE_AI_API_KEY := [] \<rparr>"
  let ?req = "\<lparr> body_question = Some (JStr (js ''What is a SAFE?'')),
                 auth_userId = Some (js ''user_1'') \<rparr>"
  let ?anon = "\<lparr> body_question = Some (JStr (js ''What is a SAFE?'')), auth_userId = None \<rparr>"
  have t: "trim (js ''What is a SAFE?'') \<noteq> []" by code_simp
  have "getAnswerFromLLM plain_numbers ?cfg demo_world (js ''What is a SAFE?'')
          = (error_response
              (js ''Critical Error: AI service API key(s) missing. Contact support. (E:CFG00)''), [])"
    by (simp add: getAnswerFromLLM_def commonPreChecks_def)
  then have h1: "kind_of (body (ask_handler plain_numbers ?cfg demo_world ?req []))
                  = Some (JStr (js ''error''))"
    using t by (simp add: ask_handler_def Let_def kind_of_def error_response_def plain_numbers_def)
  have h2: "auth_userId ?anon = None \<or> auth_userId ?anon = Some []" by simp
  from C8_history_best_effort [of plain_numbers ?cfg demo_world ?req "[]"] h1
       C8_history_best_effort [of plain_numbers demo_config demo_world ?anon "[]"] h2
  show ?thesis by blast
qed

section \<open>Properties of the prompts\<close>

lemma adapters_send_prompts:
  "Requested OpenRouter p \<in> set (snd (attemptOpenRouter rt cfg w q m [])) \<Longrightarrow>
     p = userPromptContent cfg q"
  "Requested GoogleAI p \<in> set (snd (getAnswerFromGoogleAI rt cfg w q [])) \<Longrightarrow>
     p = fullPromptForGoogleAI cfg q"
  by (auto simp: attemptOpenRouter_def getAnswerFromGoogleAI_def Let_def
        split: if_splits sum.splits option.splits json.splits)

text \<open>
  Claim C9.  Both prompts consist of a text that does not depend on the knowledge
  document, the first 25000 code units of the effective knowledge document, and a text
  that depends on the question only; a document of at most 25000 code units is
  included whole; and these are the prompts that the adapters send.
\<close>

theorem C9_document_truncated:
  "userPromptContent cfg q =
     js ''DOCUMENT:\<newline>---\<newline>'' @ take 25000 (effectiveKnowledgeBase cfg)
       @ js ''\<newline>---\<newline>USER QUESTION: '' @ q
   \<and> fullPromptForGoogleAI cfg q =
     (js ''\<newline>        '' @ sharedSystemPromptForJSON
        @ js '' \<newline>\<newline>        DOCUMENT:\<newline>        ---\<newline>        '')
       @ take 25000 (effectiveKnowledgeBase cfg)
       @ (js '' \<newline>        ---\<newline>\<newline>        USER QUESTION: '' @ q
            @ js ''\<newline>\<newline>        JSON RESPONSE (ONLY the JSON object, no other text or markdown):\<newline>    '')
   \<and> length (take 25000 (effectiveKnowledgeBase cfg)) \<le> 25000
   \<and> (length (effectiveKnowledgeBase cfg) \<le> 25000 \<longrightarrow>
        take 25000 (effectiveKnowledgeBase cfg) = effectiveKnowledgeBase cfg)
   \<and> (\<forall>p. Requested OpenRouter p \<in> set (snd (attemptOpenRouter rt cfg w q m [])) \<longrightarrow>
        p = userPromptContent cfg q)
   \<and> (\<forall>p. Requested GoogleAI p \<in> set (snd (getAnswerFromGoogleAI rt cfg w q [])) \<longrightarrow>
        p = fullPromptForGoogleAI cfg q)"
proof -
  have "fullPromptForGoogleAI cfg q =
     (js ''\<newline>        '' @ sharedSystemPromptForJSON
        @ js '' \<newline>\<newline>        DOCUMENT:\<newline>        ---\<newline>        '')
       @ take 25000 (effectiveKnowledgeBase cfg)
       @ (js '' \<newline>        ---\<newline>\<newline>        USER QUESTION: '' @ q
            @ js ''\<newline>\<newline>        JSON RESPONSE (ONLY the JSON object, no other text or markdown):\<newline>    '')"
    by (simp add: fullPromptForGoogleAI_def js_def)
  then show ?thesis
    by (auto simp: userPromptContent_def dest: adapters_send_prompts)
qed

theorem C9_document_witness:
  "length (effectiveKnowledgeBase demo_config) \<le> 25000
   \<and> take 25000 (effectiveKnowledgeBase demo_config) = effectiveKnowledgeBase demo_config
   \<and> Requested OpenRouter (userPromptContent demo_config (js ''q''))
        \<in> set (snd (attemptOpenRouter plain_numbers demo_config demo_world (js ''q'')
                    DEFAULT_OPENROUTER_MODEL []))
   \<and> Requested GoogleAI (fullPromptForGoogleAI demo_config (js ''q''))
        \<in> set (snd (getAnswerFromGoogleAI plain_numbers demo_config demo_world (js ''q'') []))"
proof -
  have h1: "length (effectiveKnowledgeBase demo_config) \<le> 25000"
    by (simp add: effectiveKnowledgeBase_def demo_config_def js_def)
  have k: "OPENROUTER_API_KEY demo_config \<noteq> []" "GOOGLE_AI_API_KEY demo_config \<noteq> []"
    by (simp_all add: demo_config_def js_def)
  have h2: "Requested OpenRouter (userPromptContent demo_config (js ''q''))
        \<in> set (snd (attemptOpenRouter plain_numbers demo_config demo_world (js ''q'')
                    DEFAULT_OPENROUTER_MODEL []))"
    using k by (simp add: attemptOpenRouter_def Let_def demo_world_def)
  have h3: "Requested GoogleAI (fullPromptForGoogleAI demo_config (js ''q''))
        \<in> set (snd (getAnswerFromGoogleAI plain_numbers demo_config demo_world (js ''q'') []))"
    using k by (simp add: getAnswerFromGoogleAI_def Let_def split: sum.splits)
  from C9_document_truncated [of demo_config "js ''q''" plain_numbers demo_world
         DEFAULT_OPENROUTER_MODEL] h1 h2 h3
  show ?thesis by blast
qed

section \<open>From the validator to the caller and the history\<close>






end
